theory Spec2Isabelle
  imports Main
begin

section \<open>The duinobot Firmata boards (duinobot/firmata\_boards.py)\<close>

text \<open>
  A shallow embedding of \<^verbatim>\<open>FirmataSerialBoard\<close> and \<^verbatim>\<open>FirmataTCPBoard\<close>.
  Python integers are \<open>int\<close>. A decoder returns the process state it leaves behind
  together with the exception it raised, if any, so that what a failing decoder has
  already written stays visible. The four class-level lists are fields of the process;
  the per-pin dictionaries are fields of each instance and hold references into a store
  of list objects.
\<close>

subsection \<open>Python sequences\<close>

datatype py_error = IndexError | SocketError | SerialException

text \<open>
  The position a subscript \<open>i\<close> denotes in a sequence of length \<open>n\<close>: Python counts a
  negative subscript from the end and raises IndexError outside \<open>-n \<le> i < n\<close>.
\<close>

definition py_index :: "nat \<Rightarrow> int \<Rightarrow> nat option" where
  "py_index n i =
     (if 0 \<le> i \<and> i < int n then Some (nat i)
      else if - int n \<le> i \<and> i < 0 then Some (nat (int n + i))
      else None)"

text \<open>\<^verbatim>\<open>xs[i]\<close> as an expression.\<close>

definition getitem :: "'a list \<Rightarrow> int \<Rightarrow> py_error + 'a" where
  "getitem xs i =
     (case py_index (length xs) i of
        None \<Rightarrow> Inl IndexError
      | Some k \<Rightarrow> Inr (xs ! k))"

text \<open>\<^verbatim>\<open>xs[i] = v\<close> on a list: the list after the assignment.\<close>

definition setitem :: "'a list \<Rightarrow> int \<Rightarrow> 'a \<Rightarrow> py_error + 'a list" where
  "setitem xs i v =
     (case py_index (length xs) i of
        None \<Rightarrow> Inl IndexError
      | Some k \<Rightarrow> Inr (xs[k := v]))"

subsection \<open>Constants (lines 9 to 27)\<close>

record board_layout =
  layout_digital :: "nat list"
  layout_analog :: "nat list"
  layout_pwm :: "nat list"
  layout_use_ports :: bool
  layout_disabled :: "nat list"

text \<open>\<^verbatim>\<open>BOARDS["duinobot"]\<close>.\<close>

definition BOARDS_duinobot :: board_layout where
  "BOARDS_duinobot =
     \<lparr>layout_digital = [0..<19],
      layout_analog = [0..<7],
      layout_pwm = [5, 6, 9],
      layout_use_ports = True,
      layout_disabled = [0, 1, 3, 4, 8]\<rparr>"

definition SYSEX_PING :: int where "SYSEX_PING = 0x03"
definition ANALOG_INPUT_REQUEST :: int where "ANALOG_INPUT_REQUEST = 0x06"
definition DIGITAL_INPUT_REQUEST :: int where "DIGITAL_INPUT_REQUEST = 0x07"
definition BROADCAST_REPORT :: int where "BROADCAST_REPORT = 0x09"
definition PIN_COMMANDS :: int where "PIN_COMMANDS = 0x0F"
definition PIN_GET_ANALOG :: int where "PIN_GET_ANALOG = 0x01"
definition PIN_GET_DIGITAL :: int where "PIN_GET_DIGITAL = 0x02"

subsection \<open>State\<close>

type_synonym obj = nat
type_synonym ref = nat

text \<open>The five bound methods that \<^verbatim>\<open>setup_layout\<close> registers.\<close>

datatype decoder =
  Handle_sysex_ping
| Handle_sysex_analog
| Handle_sysex_digital
| Handle_sysex_broadcast
| Handle_sysex_pin_commands

text \<open>
  What an instance has asked of the base engine (\<^verbatim>\<open>pyfirmata.Board\<close>) to get its pin
  layout.
\<close>

datatype base_call = Setup_layout board_layout | Auto_setup

text \<open>
  The attributes of one instance. \<open>analog\<close> and \<open>digital\<close> stand for the base engine's
  lists of pin objects, of which this layer reads the length only.
  \<open>pin_analog_value_dict\<close> and \<open>pin_digital_value_dict\<close> are the attributes
  \<^verbatim>\<open>_pin_analog_value\<close> and \<^verbatim>\<open>_pin_digital_value\<close> (lines 39, 40, 136, 137): from a
  robot id to the list object stored for it. \<open>cmd_handlers\<close> is the base engine's handler
  table as far as this layer fills it, \<open>layout_attr\<close> the attribute \<^verbatim>\<open>_layout\<close>.
  \<open>base_calls\<close> is no attribute of the source: it logs, in order, the layout calls the
  instance has made.
\<close>

record board =
  analog :: "nat list"
  digital :: "nat list"
  pin_analog_value_dict :: "int \<rightharpoonup> ref"
  pin_digital_value_dict :: "int \<rightharpoonup> ref"
  cmd_handlers :: "int \<rightharpoonup> decoder"
  layout_attr :: "board_layout option"
  base_calls :: "base_call list"

text \<open>
  The process. \<open>nearest_obstacle\<close>, \<open>analog_value\<close>, \<open>digital_value\<close> and \<open>live_robots\<close>
  are the class attributes of lines 31 to 34: one list each, reached through every
  instance of \<^verbatim>\<open>FirmataSerialBoard\<close> and of its subclass. \<open>instances\<close> gives each object
  its attributes. \<open>heap\<close> holds the list objects the per-pin accessors create, and
  \<open>next_ref\<close> is the first reference not yet handed out.
\<close>

record process =
  nearest_obstacle :: "int list"
  analog_value :: "int list"
  digital_value :: "int list"
  live_robots :: "int list"
  instances :: "obj \<Rightarrow> board"
  heap :: "ref \<Rightarrow> int list"
  next_ref :: ref

text \<open>
  An object before its constructor has run. It has no attributes yet; no method of this
  layer is called on such an object, and the model gives it no pins and no entries.
\<close>

definition blank_board :: board where
  "blank_board =
     \<lparr>analog = [], digital = [],
      pin_analog_value_dict = Map.empty, pin_digital_value_dict = Map.empty,
      cmd_handlers = Map.empty, layout_attr = None, base_calls = []\<rparr>"

text \<open>The process once the class body (lines 31 to 34) has run.\<close>

definition process0 :: process where
  "process0 =
     \<lparr>nearest_obstacle = replicate 128 (- 1),
      analog_value = replicate 128 (- 1),
      digital_value = replicate 128 (- 1),
      live_robots = replicate 128 0,
      instances = (\<lambda>_. blank_board),
      heap = (\<lambda>_. []),
      next_ref = 0\<rparr>"

subsection \<open>The decoders of the scalar values (lines 69 to 88)\<close>

definition handle_sysex_ping :: "obj \<Rightarrow> int list \<Rightarrow> process \<Rightarrow> process \<times> py_error option" where
  "handle_sysex_ping self data p =
     (case getitem data 0 of Inl e \<Rightarrow> (p, Some e) | Inr most_significant \<Rightarrow>
     (case getitem data 1 of Inl e \<Rightarrow> (p, Some e) | Inr least_significant \<Rightarrow>
     (case getitem data 2 of Inl e \<Rightarrow> (p, Some e) | Inr robot \<Rightarrow>
     (case setitem (nearest_obstacle p) robot (push_bit 7 most_significant + least_significant) of
        Inl e \<Rightarrow> (p, Some e)
      | Inr xs \<Rightarrow> (p\<lparr>nearest_obstacle := xs\<rparr>, None)))))"

definition handle_sysex_analog :: "obj \<Rightarrow> int list \<Rightarrow> process \<Rightarrow> process \<times> py_error option" where
  "handle_sysex_analog self data p =
     (case getitem data 0 of Inl e \<Rightarrow> (p, Some e) | Inr most_significant \<Rightarrow>
     (case getitem data 1 of Inl e \<Rightarrow> (p, Some e) | Inr least_significant \<Rightarrow>
     (case getitem data 2 of Inl e \<Rightarrow> (p, Some e) | Inr robot \<Rightarrow>
     (case setitem (analog_value p) robot (push_bit 7 most_significant + least_significant) of
        Inl e \<Rightarrow> (p, Some e)
      | Inr xs \<Rightarrow> (p\<lparr>analog_value := xs\<rparr>, None)))))"

definition handle_sysex_digital :: "obj \<Rightarrow> int list \<Rightarrow> process \<Rightarrow> process \<times> py_error option" where
  "handle_sysex_digital self data p =
     (case getitem data 0 of Inl e \<Rightarrow> (p, Some e) | Inr val \<Rightarrow>
     (case getitem data 1 of Inl e \<Rightarrow> (p, Some e) | Inr robot \<Rightarrow>
     (case setitem (digital_value p) robot val of
        Inl e \<Rightarrow> (p, Some e)
      | Inr xs \<Rightarrow> (p\<lparr>digital_value := xs\<rparr>, None))))"

definition handle_sysex_broadcast :: "obj \<Rightarrow> int list \<Rightarrow> process \<Rightarrow> process \<times> py_error option" where
  "handle_sysex_broadcast self data p =
     (case getitem data 0 of Inl e \<Rightarrow> (p, Some e) | Inr robot \<Rightarrow>
     (case setitem (live_robots p) robot 1 of
        Inl e \<Rightarrow> (p, Some e)
      | Inr xs \<Rightarrow> (p\<lparr>live_robots := xs\<rparr>, None)))"

subsection \<open>The per-pin accessors (lines 90 to 94)\<close>

text \<open>
  \<^verbatim>\<open>dict.setdefault\<close>: the stored list when the key is present; otherwise the new list
  is stored under the key and returned. Python builds the default list on every call,
  but a list that is not stored is dropped on return and nothing can observe it, so the
  store takes a new object only when the key is absent.
\<close>

definition pin_analog_value :: "obj \<Rightarrow> int \<Rightarrow> process \<Rightarrow> ref \<times> process" where
  "pin_analog_value self robotid p =
     (let b = instances p self in
      case pin_analog_value_dict b robotid of
        Some r \<Rightarrow> (r, p)
      | None \<Rightarrow>
          (let r = next_ref p in
           (r, p\<lparr>instances := (instances p)
                    (self := b\<lparr>pin_analog_value_dict := (pin_analog_value_dict b)(robotid \<mapsto> r)\<rparr>),
                  heap := (heap p)(r := replicate (length (analog b)) (- 1)),
                  next_ref := Suc r\<rparr>)))"

definition pin_digital_value :: "obj \<Rightarrow> int \<Rightarrow> process \<Rightarrow> ref \<times> process" where
  "pin_digital_value self robotid p =
     (let b = instances p self in
      case pin_digital_value_dict b robotid of
        Some r \<Rightarrow> (r, p)
      | None \<Rightarrow>
          (let r = next_ref p in
           (r, p\<lparr>instances := (instances p)
                    (self := b\<lparr>pin_digital_value_dict := (pin_digital_value_dict b)(robotid \<mapsto> r)\<rparr>),
                  heap := (heap p)(r := replicate (length (digital b)) (- 1)),
                  next_ref := Suc r\<rparr>)))"

subsection \<open>The pin-commands decoder (lines 96 to 110)\<close>

text \<open>
  The payload reads come first; then the accessor runs, which may create the list; the
  subscript assignment into that list comes last and may still raise.
\<close>

definition handle_sysex_pin_commands :: "obj \<Rightarrow> int list \<Rightarrow> process \<Rightarrow> process \<times> py_error option" where
  "handle_sysex_pin_commands self data p =
     (case getitem data 0 of Inl e \<Rightarrow> (p, Some e) | Inr subtype \<Rightarrow>
      if subtype = PIN_GET_ANALOG then
        (case getitem data 1 of Inl e \<Rightarrow> (p, Some e) | Inr most_significant \<Rightarrow>
        (case getitem data 2 of Inl e \<Rightarrow> (p, Some e) | Inr least_significant \<Rightarrow>
        (case getitem data 3 of Inl e \<Rightarrow> (p, Some e) | Inr pin \<Rightarrow>
        (case getitem data 4 of Inl e \<Rightarrow> (p, Some e) | Inr robot \<Rightarrow>
        (case pin_analog_value self robot p of (r, p1) \<Rightarrow>
        (case setitem (heap p1 r) pin (push_bit 7 most_significant + least_significant) of
           Inl e \<Rightarrow> (p1, Some e)
         | Inr xs \<Rightarrow> (p1\<lparr>heap := (heap p1)(r := xs)\<rparr>, None)))))))
      else if subtype = PIN_GET_DIGITAL then
        (case getitem data 1 of Inl e \<Rightarrow> (p, Some e) | Inr val \<Rightarrow>
        (case getitem data 2 of Inl e \<Rightarrow> (p, Some e) | Inr pin \<Rightarrow>
        (case getitem data 3 of Inl e \<Rightarrow> (p, Some e) | Inr robot \<Rightarrow>
        (case pin_digital_value self robot p of (r, p1) \<Rightarrow>
        (case setitem (heap p1 r) pin val of
           Inl e \<Rightarrow> (p1, Some e)
         | Inr xs \<Rightarrow> (p1\<lparr>heap := (heap p1)(r := xs)\<rparr>, None))))))
      else (p, None))"

subsection \<open>Calling a decoder\<close>

definition run_decoder :: "decoder \<Rightarrow> obj \<Rightarrow> int list \<Rightarrow> process \<Rightarrow> process \<times> py_error option" where
  "run_decoder d self data p =
     (case d of
        Handle_sysex_ping \<Rightarrow> handle_sysex_ping self data p
      | Handle_sysex_analog \<Rightarrow> handle_sysex_analog self data p
      | Handle_sysex_digital \<Rightarrow> handle_sysex_digital self data p
      | Handle_sysex_broadcast \<Rightarrow> handle_sysex_broadcast self data p
      | Handle_sysex_pin_commands \<Rightarrow> handle_sysex_pin_commands self data p)"

subsection \<open>Initialisation (lines 36 to 67 and 134 to 172)\<close>

text \<open>
  \<^verbatim>\<open>setup_layout\<close>, lines 60 to 67. Modelled from the spec: the base engine's
  \<^verbatim>\<open>setup_layout\<close>, which is not part of this repository, builds one pin object per
  analog and per digital pin that the layout declares. The five registrations follow.
\<close>

definition setup_layout :: "obj \<Rightarrow> board_layout \<Rightarrow> process \<Rightarrow> process" where
  "setup_layout self l p =
     (let b = instances p self;
          b1 = b\<lparr>analog := layout_analog l, digital := layout_digital l,
                base_calls := base_calls b @ [Setup_layout l]\<rparr>;
          b2 = b1\<lparr>cmd_handlers := (cmd_handlers b1)
                (SYSEX_PING \<mapsto> Handle_sysex_ping,
                 ANALOG_INPUT_REQUEST \<mapsto> Handle_sysex_analog,
                 DIGITAL_INPUT_REQUEST \<mapsto> Handle_sysex_digital,
                 BROADCAST_REPORT \<mapsto> Handle_sysex_broadcast,
                 PIN_COMMANDS \<mapsto> Handle_sysex_pin_commands)\<rparr>
      in p\<lparr>instances := (instances p)(self := b2)\<rparr>)"

text \<open>
  Modelled from the spec: \<^verbatim>\<open>auto_setup\<close> of the base engine, which is not part of this
  repository. It asks the peer for its pin layout (\<open>discovered\<close> is the answer) and sets
  the instance up with it.
\<close>

definition auto_setup :: "obj \<Rightarrow> board_layout \<Rightarrow> process \<Rightarrow> process" where
  "auto_setup self discovered p =
     (let b = instances p self
      in setup_layout self discovered
           (p\<lparr>instances := (instances p)(self := b\<lparr>base_calls := base_calls b @ [Auto_setup]\<rparr>)\<rparr>))"

text \<open>
  The loop of lines 171 and 172. \<open>arrivals\<close> are the decoder calls the base engine's
  \<^verbatim>\<open>iterate\<close> makes until no byte is waiting; an exception leaves the loop.
\<close>

fun drain :: "(decoder \<times> obj \<times> int list) list \<Rightarrow> process \<Rightarrow> process \<times> py_error option" where
  "drain [] p = (p, None)"
| "drain ((d, target, data) # rest) p =
     (case run_decoder d target data p of
        (p1, None) \<Rightarrow> drain rest p1
      | (p1, Some e) \<Rightarrow> (p1, Some e))"

text \<open>
  \<^verbatim>\<open>_generic_initialization\<close>, lines 163 to 172. The argument \<open>layout\<close> is \<open>None\<close> for
  every value Python takes for false (\<^verbatim>\<open>None\<close>, an empty dictionary).
\<close>

definition generic_initialization ::
  "obj \<Rightarrow> board_layout option \<Rightarrow> board_layout \<Rightarrow> (decoder \<times> obj \<times> int list) list \<Rightarrow> process
     \<Rightarrow> process \<times> py_error option" where
  "generic_initialization self layout discovered arrivals p =
     (let b = instances p self;
          p1 = p\<lparr>instances := (instances p)(self := b\<lparr>layout_attr := layout\<rparr>)\<rparr>;
          p2 = (case layout of
                  Some l \<Rightarrow> setup_layout self l p1
                | None \<Rightarrow> auto_setup self discovered p1)
      in drain arrivals p2)"

datatype outcome = Constructed | Raised py_error | Exited int

text \<open>Lines 39 and 40, and again 136 and 137: both dictionaries start empty.\<close>

definition fresh_dicts :: "obj \<Rightarrow> process \<Rightarrow> process" where
  "fresh_dicts self p =
     p\<lparr>instances := (instances p)
         (self := (instances p self)\<lparr>pin_analog_value_dict := Map.empty,
                                     pin_digital_value_dict := Map.empty\<rparr>)\<rparr>"

text \<open>
  \<^verbatim>\<open>FirmataTCPBoard.__init__\<close>, lines 135 to 161. \<open>connected\<close> says whether the socket
  connects within its five seconds. The host, the port and the display name play no
  part in the registry and are left out.
\<close>

definition FirmataTCPBoard_init ::
  "obj \<Rightarrow> board_layout option \<Rightarrow> bool \<Rightarrow> bool \<Rightarrow> board_layout \<Rightarrow> (decoder \<times> obj \<times> int list) list
     \<Rightarrow> process \<Rightarrow> process \<times> outcome" where
  "FirmataTCPBoard_init self layout debug connected discovered arrivals p =
     (let p1 = fresh_dicts self p in
      if \<not> connected then (p1, if debug then Raised SocketError else Exited 1)
      else
        (case generic_initialization self layout discovered arrivals p1 of
           (p2, None) \<Rightarrow> (p2, Constructed)
         | (p2, Some e) \<Rightarrow> (p2, Raised e)))"

text \<open>
  \<^verbatim>\<open>FirmataSerialBoard.__init__\<close>, lines 36 to 58. \<open>opened\<close> says whether the serial
  device opens. Modelled from the spec: the base engine's constructor, which is not part
  of this repository, initialises as lines 163 to 172 do.
\<close>

definition FirmataSerialBoard_init ::
  "obj \<Rightarrow> board_layout option \<Rightarrow> bool \<Rightarrow> bool \<Rightarrow> board_layout \<Rightarrow> (decoder \<times> obj \<times> int list) list
     \<Rightarrow> process \<Rightarrow> process \<times> outcome" where
  "FirmataSerialBoard_init self layout debug opened discovered arrivals p =
     (let p1 = fresh_dicts self p in
      if \<not> opened then (p1, if debug then Raised SerialException else Exited 1)
      else
        (case generic_initialization self layout discovered arrivals p1 of
           (p2, None) \<Rightarrow> (p2, Constructed)
         | (p2, Some e) \<Rightarrow> (p2, Raised e)))"

subsection \<open>Sequences of operations\<close>

text \<open>
  The operations of this layer: a decoder called on an instance with a payload, the two
  accessors, and the two constructors with what their environment answers.
\<close>

datatype operation =
  Decode decoder obj "int list"
| Pin_analog_value obj int
| Pin_digital_value obj int
| New_FirmataTCPBoard obj "board_layout option" bool bool board_layout
    "(decoder \<times> obj \<times> int list) list"
| New_FirmataSerialBoard obj "board_layout option" bool bool board_layout
    "(decoder \<times> obj \<times> int list) list"

definition perform :: "operation \<Rightarrow> process \<Rightarrow> process" where
  "perform operation p =
     (case operation of
        Decode d self data \<Rightarrow> fst (run_decoder d self data p)
      | Pin_analog_value self robotid \<Rightarrow> snd (pin_analog_value self robotid p)
      | Pin_digital_value self robotid \<Rightarrow> snd (pin_digital_value self robotid p)
      | New_FirmataTCPBoard self layout debug connected discovered arrivals \<Rightarrow>
          fst (FirmataTCPBoard_init self layout debug connected discovered arrivals p)
      | New_FirmataSerialBoard self layout debug opened discovered arrivals \<Rightarrow>
          fst (FirmataSerialBoard_init self layout debug opened discovered arrivals p))"

text \<open>
  Any sequence of operations, in order. An exception ends the call that raised it, not
  the process: the state the call left behind is the state the next call starts from.
\<close>

fun perform_all :: "operation list \<Rightarrow> process \<Rightarrow> process" where
  "perform_all [] p = p"
| "perform_all (operation # rest) p = perform_all rest (perform operation p)"

text \<open>Whether an operation runs a constructor on the object \<open>self\<close>.\<close>

fun constructs :: "operation \<Rightarrow> obj \<Rightarrow> bool" where
  "constructs (New_FirmataTCPBoard target _ _ _ _ _) self = (target = self)"
| "constructs (New_FirmataSerialBoard target _ _ _ _ _) self = (target = self)"
| "constructs _ _ = False"

subsection \<open>Well-formed states\<close>

text \<open>The four class-level lists have 128 slots, one per robot id.\<close>

definition registry_ok :: "process \<Rightarrow> bool" where
  "registry_ok p \<longleftrightarrow>
     length (nearest_obstacle p) = 128 \<and> length (analog_value p) = 128 \<and>
     length (digital_value p) = 128 \<and> length (live_robots p) = 128"

text \<open>
  The store of list objects: every list a dictionary holds has been handed out, has one
  slot per pin of its instance, and is held under one key of one dictionary only.
\<close>

definition store_ok :: "process \<Rightarrow> bool" where
  "store_ok p \<longleftrightarrow>
     (\<forall>self robot r. pin_analog_value_dict (instances p self) robot = Some r \<longrightarrow>
        r < next_ref p \<and> length (heap p r) = length (analog (instances p self))) \<and>
     (\<forall>self robot r. pin_digital_value_dict (instances p self) robot = Some r \<longrightarrow>
        r < next_ref p \<and> length (heap p r) = length (digital (instances p self))) \<and>
     (\<forall>s1 i1 s2 i2 r. pin_analog_value_dict (instances p s1) i1 = Some r \<and>
        pin_analog_value_dict (instances p s2) i2 = Some r \<longrightarrow> s1 = s2 \<and> i1 = i2) \<and>
     (\<forall>s1 i1 s2 i2 r. pin_digital_value_dict (instances p s1) i1 = Some r \<and>
        pin_digital_value_dict (instances p s2) i2 = Some r \<longrightarrow> s1 = s2 \<and> i1 = i2) \<and>
     (\<forall>s1 i1 s2 i2 r. pin_analog_value_dict (instances p s1) i1 = Some r \<longrightarrow>
        pin_digital_value_dict (instances p s2) i2 \<noteq> Some r)"

subsection \<open>Two sessions\<close>

text \<open>
  A process with one session: a TCP board, object 0, built with the duinobot layout on a
  peer that connects and sends nothing during initialisation.
\<close>

definition one_board :: process where
  "one_board =
     fst (FirmataTCPBoard_init 0 (Some BOARDS_duinobot) False True BOARDS_duinobot [] process0)"

text \<open>The same process after a serial board, object 1, has been built likewise.\<close>

definition two_boards :: process where
  "two_boards =
     fst (FirmataSerialBoard_init 1 (Some BOARDS_duinobot) False True BOARDS_duinobot [] one_board)"

section \<open>Properties\<close>

subsection \<open>Subscripts\<close>

lemma getitem_0: "getitem (a # xs) 0 = Inr a"
  by (simp add: getitem_def py_index_def)

lemma getitem_1: "getitem (a # b # xs) 1 = Inr b"
  by (simp add: getitem_def py_index_def)

lemma getitem_2: "getitem (a # b # c # xs) 2 = Inr c"
  by (simp add: getitem_def py_index_def)

lemma getitem_3: "getitem (a # b # c # d # xs) 3 = Inr d"
  by (simp add: getitem_def py_index_def)

lemma getitem_4: "getitem (a # b # c # d # e # xs) 4 = Inr e"
  by (simp add: getitem_def py_index_def)

lemma getitem_beyond: "0 \<le> i \<Longrightarrow> int (length xs) \<le> i \<Longrightarrow> getitem xs i = Inl IndexError"
  by (simp add: getitem_def py_index_def)

lemma setitem_within: "0 \<le> i \<Longrightarrow> i < int (length xs) \<Longrightarrow> setitem xs i v = Inr (xs[nat i := v])"
  by (simp add: setitem_def py_index_def)

lemma setitem_beyond: "int (length xs) \<le> i \<Longrightarrow> setitem xs i v = Inl IndexError"
  by (simp add: setitem_def py_index_def)

lemma setitem_length: "setitem xs i v = Inr ys \<Longrightarrow> length ys = length xs"
  by (auto simp: setitem_def split: option.splits)

lemma py_index_bound: "py_index n i = Some k \<Longrightarrow> k < n"
  by (auto simp: py_index_def split: if_splits)

subsection \<open>The 14-bit value\<close>

lemma reconstruct_range:
  "0 \<le> msb \<Longrightarrow> msb \<le> 127 \<Longrightarrow> 0 \<le> lsb \<Longrightarrow> lsb \<le> 127 \<Longrightarrow>
   0 \<le> push_bit 7 msb + lsb \<and> push_bit 7 msb + lsb \<le> (16383::int)"
  by (simp add: push_bit_eq_mult)

lemma reconstruct_split:
  "0 \<le> lsb \<Longrightarrow> lsb \<le> 127 \<Longrightarrow>
   drop_bit 7 (push_bit 7 msb + lsb) = msb \<and> take_bit 7 (push_bit 7 msb + lsb) = (lsb::int)"
  by (simp add: push_bit_eq_mult drop_bit_eq_div take_bit_eq_mod)

subsection \<open>The scalar decoders on a well-formed payload\<close>

lemma handle_sysex_ping_ok:
  assumes "registry_ok p" and "0 \<le> robot" and "robot \<le> 127"
  shows "handle_sysex_ping self (msb # lsb # robot # rest) p =
     (p\<lparr>nearest_obstacle := (nearest_obstacle p)[nat robot := push_bit 7 msb + lsb]\<rparr>, None)"
  using assms
  by (simp add: handle_sysex_ping_def getitem_0 getitem_1 getitem_2 setitem_within registry_ok_def)

lemma handle_sysex_analog_ok:
  assumes "registry_ok p" and "0 \<le> robot" and "robot \<le> 127"
  shows "handle_sysex_analog self (msb # lsb # robot # rest) p =
     (p\<lparr>analog_value := (analog_value p)[nat robot := push_bit 7 msb + lsb]\<rparr>, None)"
  using assms
  by (simp add: handle_sysex_analog_def getitem_0 getitem_1 getitem_2 setitem_within registry_ok_def)

lemma handle_sysex_digital_ok:
  assumes "registry_ok p" and "0 \<le> robot" and "robot \<le> 127"
  shows "handle_sysex_digital self (val # robot # rest) p =
     (p\<lparr>digital_value := (digital_value p)[nat robot := val]\<rparr>, None)"
  using assms
  by (simp add: handle_sysex_digital_def getitem_0 getitem_1 setitem_within registry_ok_def)

lemma handle_sysex_broadcast_ok:
  assumes "registry_ok p" and "0 \<le> robot" and "robot \<le> 127"
  shows "handle_sysex_broadcast self (robot # rest) p =
     (p\<lparr>live_robots := (live_robots p)[nat robot := 1]\<rparr>, None)"
  using assms
  by (simp add: handle_sysex_broadcast_def getitem_0 setitem_within registry_ok_def)

lemma registry_ok_process0: "registry_ok process0"
  by (simp add: registry_ok_def process0_def)

text \<open>
  C1. For a payload \<open>[msb, lsb, robot]\<close> of three 7-bit bytes, the ping decoder stores
  \<open>(msb << 7) + lsb\<close> in slot \<open>robot\<close> of \<open>nearest_obstacle\<close> and raises nothing, and the
  analog decoder stores the same value in slot \<open>robot\<close> of \<open>analog_value\<close>. The value is
  \<open>128 * msb + lsb\<close> and lies between 0 and 16383.
\<close>

theorem ping_and_analog_store_14_bit_value:
  assumes "registry_ok p"
    and "0 \<le> msb" and "msb \<le> 127" and "0 \<le> lsb" and "lsb \<le> 127"
    and "0 \<le> robot" and "robot \<le> 127"
  shows "handle_sysex_ping self [msb, lsb, robot] p =
           (p\<lparr>nearest_obstacle := (nearest_obstacle p)[nat robot := push_bit 7 msb + lsb]\<rparr>, None) \<and>
         nearest_obstacle (fst (handle_sysex_ping self [msb, lsb, robot] p)) ! nat robot =
           push_bit 7 msb + lsb \<and>
         handle_sysex_analog self [msb, lsb, robot] p =
           (p\<lparr>analog_value := (analog_value p)[nat robot := push_bit 7 msb + lsb]\<rparr>, None) \<and>
         analog_value (fst (handle_sysex_analog self [msb, lsb, robot] p)) ! nat robot =
           push_bit 7 msb + lsb \<and>
         push_bit 7 msb + lsb = 128 * msb + lsb \<and>
         0 \<le> push_bit 7 msb + lsb \<and> push_bit 7 msb + lsb \<le> 16383"
proof -
  have slot: "nat robot < 128"
    using assms(6,7) by simp
  have ping: "handle_sysex_ping self [msb, lsb, robot] p =
      (p\<lparr>nearest_obstacle := (nearest_obstacle p)[nat robot := push_bit 7 msb + lsb]\<rparr>, None)"
    by (rule handle_sysex_ping_ok [OF assms(1,6,7)])
  have analog: "handle_sysex_analog self [msb, lsb, robot] p =
      (p\<lparr>analog_value := (analog_value p)[nat robot := push_bit 7 msb + lsb]\<rparr>, None)"
    by (rule handle_sysex_analog_ok [OF assms(1,6,7)])
  have stored_ping:
    "nearest_obstacle (fst (handle_sysex_ping self [msb, lsb, robot] p)) ! nat robot =
       push_bit 7 msb + lsb"
    using slot assms(1) by (simp add: ping registry_ok_def)
  have stored_analog:
    "analog_value (fst (handle_sysex_analog self [msb, lsb, robot] p)) ! nat robot =
       push_bit 7 msb + lsb"
    using slot assms(1) by (simp add: analog registry_ok_def)
  have val: "push_bit 7 msb + lsb = 128 * msb + lsb"
    by (simp add: push_bit_eq_mult)
  show ?thesis
    using ping analog stored_ping stored_analog val reconstruct_range [OF assms(2-5)]
    by simp
qed

text \<open>
  The scenario of C1 on the process as the class body leaves it:
  \<open>Ping(msb=1, lsb=0, robot=2)\<close> makes \<open>nearest_obstacle[2]\<close> equal 128.
\<close>

theorem ping_and_analog_store_14_bit_value_witness:
  "registry_ok process0 \<and>
   nearest_obstacle (fst (handle_sysex_ping 0 [1, 0, 2] process0)) ! 2 = 128 \<and>
   snd (handle_sysex_ping 0 [1, 0, 2] process0) = None \<and>
   analog_value (fst (handle_sysex_analog 0 [1, 0, 2] process0)) ! 2 = 128"
  using ping_and_analog_store_14_bit_value [of process0 1 0 2 0] registry_ok_process0
  by (simp add: registry_ok_def)

text \<open>
  C2. Round trip of the 14-bit value: for 7-bit \<open>msb\<close> and \<open>lsb\<close>, the value the ping
  decoder (and likewise the analog decoder) stores for a robot gives back \<open>msb\<close> as its
  high half (\<open>v >> 7\<close>) and \<open>lsb\<close> as its low half (\<open>v & 0x7F\<close>), and lies between 0
  and 16383.
\<close>

theorem stored_value_splits_back:
  assumes "registry_ok p"
    and "0 \<le> msb" and "msb \<le> 127" and "0 \<le> lsb" and "lsb \<le> 127"
    and "0 \<le> robot" and "robot \<le> 127"
    and "v = nearest_obstacle (fst (handle_sysex_ping self [msb, lsb, robot] p)) ! nat robot"
    and "w = analog_value (fst (handle_sysex_analog self [msb, lsb, robot] p)) ! nat robot"
  shows "drop_bit 7 v = msb \<and> take_bit 7 v = lsb \<and> 0 \<le> v \<and> v \<le> 16383 \<and>
         drop_bit 7 w = msb \<and> take_bit 7 w = lsb \<and> 0 \<le> w \<and> w \<le> 16383"
proof -
  have slot: "nat robot < 128"
    using assms(6,7) by simp
  have v: "v = push_bit 7 msb + lsb"
    using slot assms(1)
    by (simp add: assms(8) handle_sysex_ping_ok [OF assms(1,6,7)] registry_ok_def)
  have w: "w = push_bit 7 msb + lsb"
    using slot assms(1)
    by (simp add: assms(9) handle_sysex_analog_ok [OF assms(1,6,7)] registry_ok_def)
  show ?thesis
    unfolding v w
    using reconstruct_split [OF assms(4,5), of msb] reconstruct_range [OF assms(2-5)]
    by simp
qed

text \<open>The round trip at the two ends of the range and in between.\<close>

theorem stored_value_splits_back_witness:
  "registry_ok process0 \<and>
   drop_bit 7 (nearest_obstacle (fst (handle_sysex_ping 0 [127, 127, 9] process0)) ! 9) = 127 \<and>
   take_bit 7 (nearest_obstacle (fst (handle_sysex_ping 0 [127, 127, 9] process0)) ! 9) = 127 \<and>
   nearest_obstacle (fst (handle_sysex_ping 0 [127, 127, 9] process0)) ! 9 \<le> 16383 \<and>
   drop_bit 7 (analog_value (fst (handle_sysex_analog 0 [127, 127, 9] process0)) ! 9) = 127 \<and>
   take_bit 7 (analog_value (fst (handle_sysex_analog 0 [127, 127, 9] process0)) ! 9) = 127"
  using stored_value_splits_back [OF registry_ok_process0, of 127 127 9 _ 0, OF _ _ _ _ _ _ refl refl]
  by (simp add: registry_ok_process0)

text \<open>
  C6. A pin-commands payload whose first byte is neither 1 (get-analog) nor 2
  (get-digital) leaves the whole process state as it was and raises nothing.
\<close>

theorem unknown_pin_subtype_ignored:
  assumes "subtype \<noteq> 1" and "subtype \<noteq> 2"
  shows "handle_sysex_pin_commands self (subtype # rest) p = (p, None)"
  using assms
  by (simp add: handle_sysex_pin_commands_def getitem_0 PIN_GET_ANALOG_def PIN_GET_DIGITAL_def)

theorem unknown_pin_subtype_ignored_witness:
  "(3::int) \<noteq> 1 \<and> (3::int) \<noteq> 2 \<and>
   handle_sysex_pin_commands 0 [3, 1, 3, 4] process0 = (process0, None)"
  using unknown_pin_subtype_ignored [of 3 0 "[1, 3, 4]" process0]
  by simp

text \<open>
  C7. A ping payload of three 7-bit bytes for robot \<open>robot\<close> changes slot \<open>robot\<close> of
  \<open>nearest_obstacle\<close> and nothing else: every other slot of \<open>nearest_obstacle\<close>, the
  three other class-level lists, every instance with its per-pin dictionaries, and the
  store of per-pin lists are as before.
\<close>

theorem ping_changes_one_slot:
  assumes "registry_ok p"
    and "0 \<le> msb" and "msb \<le> 127" and "0 \<le> lsb" and "lsb \<le> 127"
    and "0 \<le> robot" and "robot \<le> 127"
    and "p' = fst (handle_sysex_ping self [msb, lsb, robot] p)"
  shows "(\<forall>other. other \<noteq> nat robot \<longrightarrow> nearest_obstacle p' ! other = nearest_obstacle p ! other) \<and>
         length (nearest_obstacle p') = length (nearest_obstacle p) \<and>
         analog_value p' = analog_value p \<and>
         digital_value p' = digital_value p \<and>
         live_robots p' = live_robots p \<and>
         instances p' = instances p \<and>
         heap p' = heap p \<and>
         next_ref p' = next_ref p"
  by (simp add: assms(8) handle_sysex_ping_ok [OF assms(1,6,7)])

theorem ping_changes_one_slot_witness:
  "registry_ok process0 \<and>
   nearest_obstacle (fst (handle_sysex_ping 0 [1, 0, 5] process0)) ! 4 = nearest_obstacle process0 ! 4 \<and>
   nearest_obstacle (fst (handle_sysex_ping 0 [1, 0, 5] process0)) ! 6 = nearest_obstacle process0 ! 6 \<and>
   analog_value (fst (handle_sysex_ping 0 [1, 0, 5] process0)) = analog_value process0 \<and>
   digital_value (fst (handle_sysex_ping 0 [1, 0, 5] process0)) = digital_value process0 \<and>
   live_robots (fst (handle_sysex_ping 0 [1, 0, 5] process0)) = live_robots process0 \<and>
   instances (fst (handle_sysex_ping 0 [1, 0, 5] process0)) = instances process0 \<and>
   heap (fst (handle_sysex_ping 0 [1, 0, 5] process0)) = heap process0"
proof -
  let ?p' = "fst (handle_sysex_ping 0 [1, 0, 5] process0)"
  have all: "(\<forall>other. other \<noteq> nat 5 \<longrightarrow> nearest_obstacle ?p' ! other = nearest_obstacle process0 ! other) \<and>
      length (nearest_obstacle ?p') = length (nearest_obstacle process0) \<and>
      analog_value ?p' = analog_value process0 \<and>
      digital_value ?p' = digital_value process0 \<and>
      live_robots ?p' = live_robots process0 \<and>
      instances ?p' = instances process0 \<and>
      heap ?p' = heap process0 \<and>
      next_ref ?p' = next_ref process0"
    by (rule ping_changes_one_slot [OF registry_ok_process0, of 1 0 5]) simp_all
  then have "nearest_obstacle ?p' ! 4 = nearest_obstacle process0 ! 4"
    and "nearest_obstacle ?p' ! 6 = nearest_obstacle process0 ! 6"
    by simp_all
  with all show ?thesis
    by (simp add: registry_ok_process0)
qed

subsection \<open>Short payloads\<close>

lemma getitem_raises: "getitem xs i = Inl e \<Longrightarrow> e = IndexError"
  by (simp add: getitem_def split: option.splits)

lemma getitem_0_short: "length xs < 1 \<Longrightarrow> getitem xs 0 = Inl IndexError"
  by (simp add: getitem_beyond)

lemma getitem_1_short: "length xs < 2 \<Longrightarrow> getitem xs 1 = Inl IndexError"
  by (simp add: getitem_beyond)

lemma getitem_2_short: "length xs < 3 \<Longrightarrow> getitem xs 2 = Inl IndexError"
  by (simp add: getitem_beyond)

lemma handle_sysex_ping_short:
  "length data < 3 \<Longrightarrow> handle_sysex_ping self data p = (p, Some IndexError)"
  by (auto simp: handle_sysex_ping_def getitem_2_short split: sum.splits dest: getitem_raises)

lemma handle_sysex_analog_short:
  "length data < 3 \<Longrightarrow> handle_sysex_analog self data p = (p, Some IndexError)"
  by (auto simp: handle_sysex_analog_def getitem_2_short split: sum.splits dest: getitem_raises)

lemma handle_sysex_digital_short:
  "length data < 2 \<Longrightarrow> handle_sysex_digital self data p = (p, Some IndexError)"
  by (auto simp: handle_sysex_digital_def getitem_1_short split: sum.splits dest: getitem_raises)

lemma handle_sysex_broadcast_short:
  "length data < 1 \<Longrightarrow> handle_sysex_broadcast self data p = (p, Some IndexError)"
  by (auto simp: handle_sysex_broadcast_def getitem_0_short split: sum.splits dest: getitem_raises)

text \<open>
  C10. A payload shorter than the decoder reads (three bytes for ping and analog, two for
  digital, one for broadcast) makes the decoder raise IndexError and leaves the whole
  process state as it was.
\<close>

theorem short_payload_raises_and_keeps_state:
  "(length data < 3 \<longrightarrow> handle_sysex_ping self data p = (p, Some IndexError)) \<and>
   (length data < 3 \<longrightarrow> handle_sysex_analog self data p = (p, Some IndexError)) \<and>
   (length data < 2 \<longrightarrow> handle_sysex_digital self data p = (p, Some IndexError)) \<and>
   (length data < 1 \<longrightarrow> handle_sysex_broadcast self data p = (p, Some IndexError))"
  by (simp add: handle_sysex_ping_short handle_sysex_analog_short
      handle_sysex_digital_short handle_sysex_broadcast_short)

theorem short_payload_raises_and_keeps_state_witness:
  "handle_sysex_ping 0 [1, 0] process0 = (process0, Some IndexError) \<and>
   handle_sysex_analog 0 [1, 0] process0 = (process0, Some IndexError) \<and>
   handle_sysex_digital 0 [1] process0 = (process0, Some IndexError) \<and>
   handle_sysex_broadcast 0 [] process0 = (process0, Some IndexError)"
  using short_payload_raises_and_keeps_state [of "[1, 0]" 0 process0]
    short_payload_raises_and_keeps_state [of "[1]" 0 process0]
    short_payload_raises_and_keeps_state [of "[]" 0 process0]
  by simp

subsection \<open>The accessors\<close>

lemma pin_analog_value_present:
  "pin_analog_value_dict (instances p self) robotid = Some r \<Longrightarrow>
   pin_analog_value self robotid p = (r, p)"
  by (simp add: pin_analog_value_def)

lemma pin_digital_value_present:
  "pin_digital_value_dict (instances p self) robotid = Some r \<Longrightarrow>
   pin_digital_value self robotid p = (r, p)"
  by (simp add: pin_digital_value_def)

lemma pin_analog_value_absent:
  assumes "pin_analog_value_dict (instances p self) robotid = None"
    and "pin_analog_value self robotid p = (r, p')"
  shows "r = next_ref p"
    and "next_ref p' = Suc (next_ref p)"
    and "heap p' = (heap p)(r := replicate (length (analog (instances p self))) (- 1))"
    and "instances p' = (instances p)(self := (instances p self)
           \<lparr>pin_analog_value_dict := (pin_analog_value_dict (instances p self))(robotid \<mapsto> r)\<rparr>)"
    and "nearest_obstacle p' = nearest_obstacle p" and "analog_value p' = analog_value p"
    and "digital_value p' = digital_value p" and "live_robots p' = live_robots p"
  using assms by (auto simp: pin_analog_value_def Let_def)

lemma pin_digital_value_absent:
  assumes "pin_digital_value_dict (instances p self) robotid = None"
    and "pin_digital_value self robotid p = (r, p')"
  shows "r = next_ref p"
    and "next_ref p' = Suc (next_ref p)"
    and "heap p' = (heap p)(r := replicate (length (digital (instances p self))) (- 1))"
    and "instances p' = (instances p)(self := (instances p self)
           \<lparr>pin_digital_value_dict := (pin_digital_value_dict (instances p self))(robotid \<mapsto> r)\<rparr>)"
    and "nearest_obstacle p' = nearest_obstacle p" and "analog_value p' = analog_value p"
    and "digital_value p' = digital_value p" and "live_robots p' = live_robots p"
  using assms by (auto simp: pin_digital_value_def Let_def)

text \<open>After a call the key is present, whether it was before or not.\<close>

lemma pin_analog_value_stores:
  "pin_analog_value self robotid p = (r, p') \<Longrightarrow>
   pin_analog_value_dict (instances p' self) robotid = Some r"
  by (auto simp: pin_analog_value_def Let_def split: option.splits)

lemma pin_digital_value_stores:
  "pin_digital_value self robotid p = (r, p') \<Longrightarrow>
   pin_digital_value_dict (instances p' self) robotid = Some r"
  by (auto simp: pin_digital_value_def Let_def split: option.splits)

lemma pin_analog_value_again:
  "pin_analog_value self robotid p = (r, p') \<Longrightarrow> pin_analog_value self robotid p' = (r, p')"
  by (rule pin_analog_value_present) (rule pin_analog_value_stores)

lemma pin_digital_value_again:
  "pin_digital_value self robotid p = (r, p') \<Longrightarrow> pin_digital_value self robotid p' = (r, p')"
  by (rule pin_digital_value_present) (rule pin_digital_value_stores)

text \<open>What an accessor keeps: the other dictionary, and every entry already present.\<close>

lemma pin_analog_value_keeps_analog:
  "pin_analog_value_dict (instances p s) i = Some r \<Longrightarrow>
   pin_analog_value_dict (instances (snd (pin_analog_value self robotid p)) s) i = Some r"
  by (auto simp: pin_analog_value_def Let_def split: option.splits)

lemma pin_analog_value_keeps_digital:
  "pin_digital_value_dict (instances (snd (pin_analog_value self robotid p)) s) =
   pin_digital_value_dict (instances p s)"
  by (auto simp: pin_analog_value_def Let_def split: option.splits)

lemma pin_digital_value_keeps_digital:
  "pin_digital_value_dict (instances p s) i = Some r \<Longrightarrow>
   pin_digital_value_dict (instances (snd (pin_digital_value self robotid p)) s) i = Some r"
  by (auto simp: pin_digital_value_def Let_def split: option.splits)

lemma pin_digital_value_keeps_analog:
  "pin_analog_value_dict (instances (snd (pin_digital_value self robotid p)) s) =
   pin_analog_value_dict (instances p s)"
  by (auto simp: pin_digital_value_def Let_def split: option.splits)

lemma pin_analog_value_other_instance:
  "s \<noteq> self \<Longrightarrow> instances (snd (pin_analog_value self robotid p)) s = instances p s"
  by (auto simp: pin_analog_value_def Let_def split: option.splits)

lemma pin_digital_value_other_instance:
  "s \<noteq> self \<Longrightarrow> instances (snd (pin_digital_value self robotid p)) s = instances p s"
  by (auto simp: pin_digital_value_def Let_def split: option.splits)

lemma pin_analog_value_class_lists:
  "nearest_obstacle (snd (pin_analog_value self robotid p)) = nearest_obstacle p"
  "analog_value (snd (pin_analog_value self robotid p)) = analog_value p"
  "digital_value (snd (pin_analog_value self robotid p)) = digital_value p"
  "live_robots (snd (pin_analog_value self robotid p)) = live_robots p"
  by (auto simp: pin_analog_value_def Let_def split: option.splits)

lemma pin_digital_value_class_lists:
  "nearest_obstacle (snd (pin_digital_value self robotid p)) = nearest_obstacle p"
  "analog_value (snd (pin_digital_value self robotid p)) = analog_value p"
  "digital_value (snd (pin_digital_value self robotid p)) = digital_value p"
  "live_robots (snd (pin_digital_value self robotid p)) = live_robots p"
  by (auto simp: pin_digital_value_def Let_def split: option.splits)

lemma pin_analog_value_setup:
  "analog (instances (snd (pin_analog_value self robotid p)) s) = analog (instances p s)"
  "digital (instances (snd (pin_analog_value self robotid p)) s) = digital (instances p s)"
  "cmd_handlers (instances (snd (pin_analog_value self robotid p)) s) = cmd_handlers (instances p s)"
  "layout_attr (instances (snd (pin_analog_value self robotid p)) s) = layout_attr (instances p s)"
  "base_calls (instances (snd (pin_analog_value self robotid p)) s) = base_calls (instances p s)"
  by (auto simp: pin_analog_value_def Let_def split: option.splits)

lemma pin_digital_value_setup:
  "analog (instances (snd (pin_digital_value self robotid p)) s) = analog (instances p s)"
  "digital (instances (snd (pin_digital_value self robotid p)) s) = digital (instances p s)"
  "cmd_handlers (instances (snd (pin_digital_value self robotid p)) s) = cmd_handlers (instances p s)"
  "layout_attr (instances (snd (pin_digital_value self robotid p)) s) = layout_attr (instances p s)"
  "base_calls (instances (snd (pin_digital_value self robotid p)) s) = base_calls (instances p s)"
  by (auto simp: pin_digital_value_def Let_def split: option.splits)

subsection \<open>What a decoder can change\<close>

lemma same_nearest_obstacle:
  "\<exists>xs. p = p\<lparr>nearest_obstacle := xs\<rparr> \<and> length xs = length (nearest_obstacle p)"
  by (rule exI [of _ "nearest_obstacle p"]) simp

lemma same_analog_value:
  "\<exists>xs. p = p\<lparr>analog_value := xs\<rparr> \<and> length xs = length (analog_value p)"
  by (rule exI [of _ "analog_value p"]) simp

lemma same_digital_value:
  "\<exists>xs. p = p\<lparr>digital_value := xs\<rparr> \<and> length xs = length (digital_value p)"
  by (rule exI [of _ "digital_value p"]) simp

lemma same_live_robots:
  "\<exists>xs. p = p\<lparr>live_robots := xs\<rparr> \<and> length xs = length (live_robots p) \<and>
        (\<forall>i. live_robots p ! i \<noteq> 0 \<longrightarrow> xs ! i \<noteq> 0)"
  by (rule exI [of _ "live_robots p"]) simp

lemma handle_sysex_ping_state:
  "\<exists>xs. fst (handle_sysex_ping self data p) = p\<lparr>nearest_obstacle := xs\<rparr> \<and>
        length xs = length (nearest_obstacle p)"
  unfolding handle_sysex_ping_def
  by (auto split: sum.splits simp: same_nearest_obstacle dest: setitem_length)

lemma handle_sysex_analog_state:
  "\<exists>xs. fst (handle_sysex_analog self data p) = p\<lparr>analog_value := xs\<rparr> \<and>
        length xs = length (analog_value p)"
  unfolding handle_sysex_analog_def
  by (auto split: sum.splits simp: same_analog_value dest: setitem_length)

lemma handle_sysex_digital_state:
  "\<exists>xs. fst (handle_sysex_digital self data p) = p\<lparr>digital_value := xs\<rparr> \<and>
        length xs = length (digital_value p)"
  unfolding handle_sysex_digital_def
  by (auto split: sum.splits simp: same_digital_value dest: setitem_length)

lemma setitem_live:
  assumes "setitem xs i 1 = Inr ys" and "xs ! k \<noteq> (0::int)"
  shows "ys ! k \<noteq> 0"
proof -
  from assms(1) obtain j where j: "j < length xs" "ys = xs[j := 1]"
    by (auto simp: setitem_def split: option.splits dest: py_index_bound)
  with assms(2) show ?thesis
    by (cases "k = j") simp_all
qed

lemma handle_sysex_broadcast_state:
  "\<exists>xs. fst (handle_sysex_broadcast self data p) = p\<lparr>live_robots := xs\<rparr> \<and>
        length xs = length (live_robots p) \<and>
        (\<forall>i. live_robots p ! i \<noteq> 0 \<longrightarrow> xs ! i \<noteq> 0)"
  unfolding handle_sysex_broadcast_def
  by (auto split: sum.splits simp: same_live_robots dest: setitem_length setitem_live)

text \<open>
  The pin-commands decoder either leaves the state as it was, or runs one accessor and
  then replaces at most the list the accessor returned, by a list of the same length.
\<close>

lemma handle_sysex_pin_commands_state:
  "fst (handle_sysex_pin_commands self data p) = p \<or>
   (\<exists>robot r p1 xs. pin_analog_value self robot p = (r, p1) \<and>
      length xs = length (heap p1 r) \<and>
      fst (handle_sysex_pin_commands self data p) = p1\<lparr>heap := (heap p1)(r := xs)\<rparr>) \<or>
   (\<exists>robot r p1 xs. pin_digital_value self robot p = (r, p1) \<and>
      length xs = length (heap p1 r) \<and>
      fst (handle_sysex_pin_commands self data p) = p1\<lparr>heap := (heap p1)(r := xs)\<rparr>)"
proof -
  let ?h = "handle_sysex_pin_commands self data p"
  have store: "\<exists>xs. length xs = length (heap q r) \<and>
      fst (case setitem (heap q r) pin v of
             Inl e \<Rightarrow> (q, Some e)
           | Inr xs \<Rightarrow> (q\<lparr>heap := (heap q)(r := xs)\<rparr>, None)) = q\<lparr>heap := (heap q)(r := xs)\<rparr>"
    for q :: process and r pin v
  proof (cases "setitem (heap q r) pin v")
    case (Inl e)
    then show ?thesis
      by (intro exI [of _ "heap q r"]) simp
  next
    case (Inr xs)
    then show ?thesis
      by (intro exI [of _ xs]) (simp add: setitem_length)
  qed
  show ?thesis
  proof (cases "getitem data 0")
    case (Inl e)
    then show ?thesis
      by (simp add: handle_sysex_pin_commands_def)
  next
    case subtype: (Inr subtype)
    consider (analog) "subtype = PIN_GET_ANALOG"
      | (digital) "subtype \<noteq> PIN_GET_ANALOG" "subtype = PIN_GET_DIGITAL"
      | (unknown) "subtype \<noteq> PIN_GET_ANALOG" "subtype \<noteq> PIN_GET_DIGITAL"
      by blast
    then show ?thesis
    proof cases
      case analog
      show ?thesis
      proof (cases "\<exists>ms ls pin robot. getitem data 1 = Inr ms \<and> getitem data 2 = Inr ls \<and>
          getitem data 3 = Inr pin \<and> getitem data 4 = Inr robot")
        case True
        then obtain ms ls pin robot where reads: "getitem data 1 = Inr ms"
          "getitem data 2 = Inr ls" "getitem data 3 = Inr pin" "getitem data 4 = Inr robot"
          by blast
        obtain r p1 where acc: "pin_analog_value self robot p = (r, p1)"
          by (cases "pin_analog_value self robot p")
        from store [of p1 r pin "push_bit 7 ms + ls"] obtain xs
          where "length xs = length (heap p1 r)" "fst ?h = p1\<lparr>heap := (heap p1)(r := xs)\<rparr>"
          by (auto simp: handle_sysex_pin_commands_def subtype analog reads acc)
        with acc show ?thesis
          by blast
      next
        case False
        then have "fst ?h = p"
          by (auto simp: handle_sysex_pin_commands_def subtype analog split: sum.splits)
        then show ?thesis
          by simp
      qed
    next
      case digital
      show ?thesis
      proof (cases "\<exists>val pin robot. getitem data 1 = Inr val \<and> getitem data 2 = Inr pin \<and>
          getitem data 3 = Inr robot")
        case True
        then obtain val pin robot where reads: "getitem data 1 = Inr val"
          "getitem data 2 = Inr pin" "getitem data 3 = Inr robot"
          by blast
        obtain r p1 where acc: "pin_digital_value self robot p = (r, p1)"
          by (cases "pin_digital_value self robot p")
        from store [of p1 r pin val] obtain xs
          where "length xs = length (heap p1 r)" "fst ?h = p1\<lparr>heap := (heap p1)(r := xs)\<rparr>"
          using digital(1)
          by (auto simp: handle_sysex_pin_commands_def subtype digital(2) reads acc)
        with acc show ?thesis
          by blast
      next
        case False
        then have "fst ?h = p"
          using digital(1)
          by (auto simp: handle_sysex_pin_commands_def subtype digital(2) split: sum.splits)
        then show ?thesis
          by simp
      qed
    next
      case unknown
      then show ?thesis
        by (simp add: handle_sysex_pin_commands_def subtype)
    qed
  qed
qed

text \<open>The same as a rule: what holds in each of the three cases holds after the decoder.\<close>

lemma handle_sysex_pin_commands_cases:
  assumes "P p"
    and "\<And>robot xs.
      length xs = length (heap (snd (pin_analog_value self robot p)) (fst (pin_analog_value self robot p))) \<Longrightarrow>
      P ((snd (pin_analog_value self robot p))
           \<lparr>heap := (heap (snd (pin_analog_value self robot p)))(fst (pin_analog_value self robot p) := xs)\<rparr>)"
    and "\<And>robot xs.
      length xs = length (heap (snd (pin_digital_value self robot p)) (fst (pin_digital_value self robot p))) \<Longrightarrow>
      P ((snd (pin_digital_value self robot p))
           \<lparr>heap := (heap (snd (pin_digital_value self robot p)))(fst (pin_digital_value self robot p) := xs)\<rparr>)"
  shows "P (fst (handle_sysex_pin_commands self data p))"
proof -
  consider "fst (handle_sysex_pin_commands self data p) = p"
    | robot r p1 xs where "pin_analog_value self robot p = (r, p1)" "length xs = length (heap p1 r)"
        "fst (handle_sysex_pin_commands self data p) = p1\<lparr>heap := (heap p1)(r := xs)\<rparr>"
    | robot r p1 xs where "pin_digital_value self robot p = (r, p1)" "length xs = length (heap p1 r)"
        "fst (handle_sysex_pin_commands self data p) = p1\<lparr>heap := (heap p1)(r := xs)\<rparr>"
    using handle_sysex_pin_commands_state [of self data p] by blast
  then show ?thesis
  proof cases
    case 1
    with assms(1) show ?thesis by simp
  next
    case 2
    with assms(2) [of xs robot] show ?thesis by simp
  next
    case 3
    with assms(3) [of xs robot] show ?thesis by simp
  qed
qed

lemma handle_sysex_pin_commands_class_lists:
  "nearest_obstacle (fst (handle_sysex_pin_commands self data p)) = nearest_obstacle p"
  "analog_value (fst (handle_sysex_pin_commands self data p)) = analog_value p"
  "digital_value (fst (handle_sysex_pin_commands self data p)) = digital_value p"
  "live_robots (fst (handle_sysex_pin_commands self data p)) = live_robots p"
  by (rule handle_sysex_pin_commands_cases;
      simp add: pin_analog_value_class_lists pin_digital_value_class_lists)+

lemma handle_sysex_pin_commands_setup:
  "analog (instances (fst (handle_sysex_pin_commands self data p)) s) = analog (instances p s)"
  "digital (instances (fst (handle_sysex_pin_commands self data p)) s) = digital (instances p s)"
  "cmd_handlers (instances (fst (handle_sysex_pin_commands self data p)) s) = cmd_handlers (instances p s)"
  "layout_attr (instances (fst (handle_sysex_pin_commands self data p)) s) = layout_attr (instances p s)"
  "base_calls (instances (fst (handle_sysex_pin_commands self data p)) s) = base_calls (instances p s)"
  by (rule handle_sysex_pin_commands_cases;
      simp add: pin_analog_value_setup pin_digital_value_setup)+

lemma handle_sysex_pin_commands_other_instance:
  "s \<noteq> self \<Longrightarrow> instances (fst (handle_sysex_pin_commands self data p)) s = instances p s"
  by (rule handle_sysex_pin_commands_cases;
      simp add: pin_analog_value_other_instance pin_digital_value_other_instance)

lemma handle_sysex_pin_commands_keeps_analog:
  "pin_analog_value_dict (instances p s) i = Some r \<Longrightarrow>
   pin_analog_value_dict (instances (fst (handle_sysex_pin_commands self data p)) s) i = Some r"
  by (rule handle_sysex_pin_commands_cases;
      simp add: pin_analog_value_keeps_analog pin_digital_value_keeps_analog)

lemma handle_sysex_pin_commands_keeps_digital:
  "pin_digital_value_dict (instances p s) i = Some r \<Longrightarrow>
   pin_digital_value_dict (instances (fst (handle_sysex_pin_commands self data p)) s) i = Some r"
  by (rule handle_sysex_pin_commands_cases;
      simp add: pin_analog_value_keeps_digital pin_digital_value_keeps_digital)

subsection \<open>What any decoder keeps\<close>

lemma run_decoder_instances_scalar:
  "d \<noteq> Handle_sysex_pin_commands \<Longrightarrow>
   instances (fst (run_decoder d self data p)) = instances p \<and>
   heap (fst (run_decoder d self data p)) = heap p \<and>
   next_ref (fst (run_decoder d self data p)) = next_ref p"
  using handle_sysex_ping_state [of self data p] handle_sysex_analog_state [of self data p]
    handle_sysex_digital_state [of self data p] handle_sysex_broadcast_state [of self data p]
  by (cases d) (auto simp: run_decoder_def)

lemma run_decoder_live:
  "live_robots p ! i \<noteq> 0 \<Longrightarrow> live_robots (fst (run_decoder d self data p)) ! i \<noteq> 0"
  using handle_sysex_ping_state [of self data p] handle_sysex_analog_state [of self data p]
    handle_sysex_digital_state [of self data p] handle_sysex_broadcast_state [of self data p]
  by (cases d) (auto simp: run_decoder_def handle_sysex_pin_commands_class_lists)

lemma run_decoder_registry_ok:
  "registry_ok p \<Longrightarrow> registry_ok (fst (run_decoder d self data p))"
  using handle_sysex_ping_state [of self data p] handle_sysex_analog_state [of self data p]
    handle_sysex_digital_state [of self data p] handle_sysex_broadcast_state [of self data p]
  by (cases d) (auto simp: run_decoder_def registry_ok_def handle_sysex_pin_commands_class_lists)

lemma run_decoder_setup:
  "analog (instances (fst (run_decoder d self data p)) s) = analog (instances p s)"
  "digital (instances (fst (run_decoder d self data p)) s) = digital (instances p s)"
  "cmd_handlers (instances (fst (run_decoder d self data p)) s) = cmd_handlers (instances p s)"
  "layout_attr (instances (fst (run_decoder d self data p)) s) = layout_attr (instances p s)"
  "base_calls (instances (fst (run_decoder d self data p)) s) = base_calls (instances p s)"
  using run_decoder_instances_scalar [of d self data p]
  by (cases d; simp add: run_decoder_def handle_sysex_pin_commands_setup)+

lemma run_decoder_keeps_analog:
  "pin_analog_value_dict (instances p s) i = Some r \<Longrightarrow>
   pin_analog_value_dict (instances (fst (run_decoder d self data p)) s) i = Some r"
  using run_decoder_instances_scalar [of d self data p]
  by (cases d; simp add: run_decoder_def handle_sysex_pin_commands_keeps_analog)

lemma run_decoder_keeps_digital:
  "pin_digital_value_dict (instances p s) i = Some r \<Longrightarrow>
   pin_digital_value_dict (instances (fst (run_decoder d self data p)) s) i = Some r"
  using run_decoder_instances_scalar [of d self data p]
  by (cases d; simp add: run_decoder_def handle_sysex_pin_commands_keeps_digital)

lemma run_decoder_other_instance:
  "s \<noteq> self \<Longrightarrow> instances (fst (run_decoder d self data p)) s = instances p s"
  using run_decoder_instances_scalar [of d self data p]
  by (cases d; simp add: run_decoder_def handle_sysex_pin_commands_other_instance)

subsection \<open>The store stays well-formed\<close>

lemma store_ok_cong:
  "instances q = instances p \<Longrightarrow> heap q = heap p \<Longrightarrow> next_ref q = next_ref p \<Longrightarrow>
   store_ok q = store_ok p"
  by (simp add: store_ok_def)

lemma store_ok_process0: "store_ok process0"
  by (simp add: store_ok_def process0_def blank_board_def)

lemma store_ok_analog_bound:
  "store_ok p \<Longrightarrow> pin_analog_value_dict (instances p s) i = Some r \<Longrightarrow> r < next_ref p"
  unfolding store_ok_def by meson

lemma store_ok_digital_bound:
  "store_ok p \<Longrightarrow> pin_digital_value_dict (instances p s) i = Some r \<Longrightarrow> r < next_ref p"
  unfolding store_ok_def by meson

lemma store_ok_analog_length:
  "store_ok p \<Longrightarrow> pin_analog_value_dict (instances p s) i = Some r \<Longrightarrow>
   length (heap p r) = length (analog (instances p s))"
  unfolding store_ok_def by meson

lemma store_ok_digital_length:
  "store_ok p \<Longrightarrow> pin_digital_value_dict (instances p s) i = Some r \<Longrightarrow>
   length (heap p r) = length (digital (instances p s))"
  unfolding store_ok_def by meson

lemma store_ok_analog_unshared:
  "store_ok p \<Longrightarrow> pin_analog_value_dict (instances p s1) i1 = Some r \<Longrightarrow>
   pin_analog_value_dict (instances p s2) i2 = Some r \<Longrightarrow> s1 = s2 \<and> i1 = i2"
  unfolding store_ok_def by meson

lemma store_ok_digital_unshared:
  "store_ok p \<Longrightarrow> pin_digital_value_dict (instances p s1) i1 = Some r \<Longrightarrow>
   pin_digital_value_dict (instances p s2) i2 = Some r \<Longrightarrow> s1 = s2 \<and> i1 = i2"
  unfolding store_ok_def by meson

lemma store_ok_kinds_unshared:
  "store_ok p \<Longrightarrow> pin_analog_value_dict (instances p s1) i1 = Some r \<Longrightarrow>
   pin_digital_value_dict (instances p s2) i2 = Some r \<Longrightarrow> False"
  unfolding store_ok_def by meson

lemma store_ok_heap_update:
  assumes "store_ok q" and "length xs = length (heap q r)"
  shows "store_ok (q\<lparr>heap := (heap q)(r := xs)\<rparr>)"
  using assms unfolding store_ok_def by simp


lemma store_ok_pin_analog_value:
  assumes "store_ok p"
  shows "store_ok (snd (pin_analog_value self robotid p))"
proof (cases "pin_analog_value_dict (instances p self) robotid")
  case (Some r)
  with assms show ?thesis
    by (simp add: pin_analog_value_present)
next
  case None
  note a = store_ok_analog_bound [OF assms] and d = store_ok_digital_bound [OF assms]
  have a': "next_ref p \<noteq> r" if "pin_analog_value_dict (instances p s) i = Some r" for s i r
    using a [OF that] by simp
  have d': "next_ref p \<noteq> r" if "pin_digital_value_dict (instances p s) i = Some r" for s i r
    using d [OF that] by simp
  show ?thesis
    unfolding store_ok_def pin_analog_value_def Let_def
    using None
    apply (simp add: less_Suc_eq)
    apply (intro conjI allI impI)
    apply (auto dest: a' d' a d store_ok_analog_length [OF assms] store_ok_digital_length [OF assms]
        store_ok_analog_unshared [OF assms] store_ok_digital_unshared [OF assms]
        store_ok_kinds_unshared [OF assms])
    done
qed

lemma store_ok_pin_digital_value:
  assumes "store_ok p"
  shows "store_ok (snd (pin_digital_value self robotid p))"
proof (cases "pin_digital_value_dict (instances p self) robotid")
  case (Some r)
  with assms show ?thesis
    by (simp add: pin_digital_value_present)
next
  case None
  note a = store_ok_analog_bound [OF assms] and d = store_ok_digital_bound [OF assms]
  have a': "next_ref p \<noteq> r" if "pin_analog_value_dict (instances p s) i = Some r" for s i r
    using a [OF that] by simp
  have d': "next_ref p \<noteq> r" if "pin_digital_value_dict (instances p s) i = Some r" for s i r
    using d [OF that] by simp
  show ?thesis
    unfolding store_ok_def pin_digital_value_def Let_def
    using None
    apply (simp add: less_Suc_eq)
    apply (intro conjI allI impI)
    apply (auto dest: a' d' a d store_ok_analog_length [OF assms] store_ok_digital_length [OF assms]
        store_ok_analog_unshared [OF assms] store_ok_digital_unshared [OF assms]
        store_ok_kinds_unshared [OF assms])
    done
qed

lemma store_ok_handle_sysex_pin_commands:
  "store_ok p \<Longrightarrow> store_ok (fst (handle_sysex_pin_commands self data p))"
  by (rule handle_sysex_pin_commands_cases)
    (simp_all add: store_ok_heap_update store_ok_pin_analog_value store_ok_pin_digital_value)

lemma store_ok_run_decoder:
  assumes "store_ok p"
  shows "store_ok (fst (run_decoder d self data p))"
proof (cases "d = Handle_sysex_pin_commands")
  case True
  with assms show ?thesis
    by (simp add: run_decoder_def store_ok_handle_sysex_pin_commands)
next
  case False
  from run_decoder_instances_scalar [OF False, of self data p] assms show ?thesis
    by (simp add: store_ok_cong [of "fst (run_decoder d self data p)" p])
qed

subsection \<open>Initialisation keeps the invariants\<close>

lemma drain_live:
  "live_robots p ! i \<noteq> 0 \<Longrightarrow> live_robots (fst (drain arrivals p)) ! i \<noteq> 0"
proof (induction arrivals arbitrary: p)
  case Nil
  then show ?case by simp
next
  case (Cons a arrivals)
  obtain d target data where a: "a = (d, target, data)"
    by (cases a)
  obtain p1 e where step: "run_decoder d target data p = (p1, e)"
    by (cases "run_decoder d target data p")
  from run_decoder_live [OF Cons.prems, of d target data] step
  have "live_robots p1 ! i \<noteq> 0"
    by simp
  with Cons.IH [of p1] show ?case
    by (cases e) (simp_all add: a step)
qed

lemma drain_registry_ok:
  "registry_ok p \<Longrightarrow> registry_ok (fst (drain arrivals p))"
proof (induction arrivals arbitrary: p)
  case Nil
  then show ?case by simp
next
  case (Cons a arrivals)
  obtain d target data where a: "a = (d, target, data)"
    by (cases a)
  obtain p1 e where step: "run_decoder d target data p = (p1, e)"
    by (cases "run_decoder d target data p")
  from run_decoder_registry_ok [OF Cons.prems, of d target data] step
  have "registry_ok p1"
    by simp
  with Cons.IH [of p1] show ?case
    by (cases e) (simp_all add: a step)
qed

lemma drain_store_ok:
  "store_ok p \<Longrightarrow> store_ok (fst (drain arrivals p))"
proof (induction arrivals arbitrary: p)
  case Nil
  then show ?case by simp
next
  case (Cons a arrivals)
  obtain d target data where a: "a = (d, target, data)"
    by (cases a)
  obtain p1 e where step: "run_decoder d target data p = (p1, e)"
    by (cases "run_decoder d target data p")
  from store_ok_run_decoder [OF Cons.prems, of d target data] step
  have "store_ok p1"
    by simp
  with Cons.IH [of p1] show ?case
    by (cases e) (simp_all add: a step)
qed

lemma drain_base_calls:
  "base_calls (instances (fst (drain arrivals p)) s) = base_calls (instances p s)"
proof (induction arrivals arbitrary: p)
  case Nil
  then show ?case by simp
next
  case (Cons a arrivals)
  obtain d target data where a: "a = (d, target, data)"
    by (cases a)
  obtain p1 e where step: "run_decoder d target data p = (p1, e)"
    by (cases "run_decoder d target data p")
  from run_decoder_setup(5) [of d target data p s] step
  have "base_calls (instances p1 s) = base_calls (instances p s)"
    by simp
  with Cons.IH [of p1] show ?case
    by (cases e) (simp_all add: a step)
qed

lemma setup_layout_class_lists:
  "nearest_obstacle (setup_layout self l p) = nearest_obstacle p"
  "analog_value (setup_layout self l p) = analog_value p"
  "digital_value (setup_layout self l p) = digital_value p"
  "live_robots (setup_layout self l p) = live_robots p"
  by (simp_all add: setup_layout_def Let_def)

lemma auto_setup_class_lists:
  "nearest_obstacle (auto_setup self l p) = nearest_obstacle p"
  "analog_value (auto_setup self l p) = analog_value p"
  "digital_value (auto_setup self l p) = digital_value p"
  "live_robots (auto_setup self l p) = live_robots p"
  by (simp_all add: auto_setup_def Let_def setup_layout_class_lists)

lemma fresh_dicts_class_lists:
  "nearest_obstacle (fresh_dicts self p) = nearest_obstacle p"
  "analog_value (fresh_dicts self p) = analog_value p"
  "digital_value (fresh_dicts self p) = digital_value p"
  "live_robots (fresh_dicts self p) = live_robots p"
  by (simp_all add: fresh_dicts_def)

lemma store_ok_fresh_dicts:
  assumes "store_ok p"
  shows "store_ok (fresh_dicts self p)"
  unfolding store_ok_def fresh_dicts_def
  apply simp
  apply (intro conjI allI impI)
  apply (auto dest: store_ok_analog_bound [OF assms] store_ok_digital_bound [OF assms]
      store_ok_analog_length [OF assms] store_ok_digital_length [OF assms]
      store_ok_analog_unshared [OF assms] store_ok_digital_unshared [OF assms]
      store_ok_kinds_unshared [OF assms])
  done

lemma fresh_dicts_empty:
  "pin_analog_value_dict (instances (fresh_dicts self p) self) = Map.empty"
  "pin_digital_value_dict (instances (fresh_dicts self p) self) = Map.empty"
  by (simp_all add: fresh_dicts_def)

text \<open>
  Setting a layout changes the pin counts of the instance, so the lists it already holds
  would no longer fit: the constructors set the layout while both dictionaries are empty.
\<close>

lemma store_ok_set_attributes:
  assumes "store_ok p"
    and "pin_analog_value_dict b = Map.empty" and "pin_digital_value_dict b = Map.empty"
  shows "store_ok (p\<lparr>instances := (instances p)(self := b)\<rparr>)"
  unfolding store_ok_def
  apply (simp add: assms(2,3))
  apply (intro conjI allI impI)
  apply (auto dest: store_ok_analog_bound [OF assms(1)] store_ok_digital_bound [OF assms(1)]
      store_ok_analog_length [OF assms(1)] store_ok_digital_length [OF assms(1)]
      store_ok_analog_unshared [OF assms(1)] store_ok_digital_unshared [OF assms(1)]
      store_ok_kinds_unshared [OF assms(1)])
  done

lemma store_ok_setup_layout:
  assumes "store_ok p"
    and "pin_analog_value_dict (instances p self) = Map.empty"
    and "pin_digital_value_dict (instances p self) = Map.empty"
  shows "store_ok (setup_layout self l p)"
  unfolding setup_layout_def Let_def
  by (rule store_ok_set_attributes [OF assms(1)]) (simp_all add: assms(2,3))

lemma store_ok_auto_setup:
  assumes "store_ok p"
    and "pin_analog_value_dict (instances p self) = Map.empty"
    and "pin_digital_value_dict (instances p self) = Map.empty"
  shows "store_ok (auto_setup self l p)"
  unfolding auto_setup_def Let_def
  by (rule store_ok_setup_layout, rule store_ok_set_attributes [OF assms(1)])
    (simp_all add: assms(2,3))

lemma store_ok_generic_initialization:
  assumes "store_ok p"
    and "pin_analog_value_dict (instances p self) = Map.empty"
    and "pin_digital_value_dict (instances p self) = Map.empty"
  shows "store_ok (fst (generic_initialization self layout discovered arrivals p))"
proof -
  define p1 where
    "p1 = p\<lparr>instances := (instances p)(self := (instances p self)\<lparr>layout_attr := layout\<rparr>)\<rparr>"
  have p1: "store_ok p1"
    unfolding p1_def
    by (rule store_ok_set_attributes [OF assms(1)]) (simp_all add: assms(2,3))
  have empty: "pin_analog_value_dict (instances p1 self) = Map.empty"
    "pin_digital_value_dict (instances p1 self) = Map.empty"
    by (simp_all add: p1_def assms(2,3))
  define p2 where
    "p2 = (case layout of Some l \<Rightarrow> setup_layout self l p1 | None \<Rightarrow> auto_setup self discovered p1)"
  have "store_ok p2"
  proof (cases layout)
    case None
    then show ?thesis
      by (simp add: p2_def store_ok_auto_setup [OF p1 empty])
  next
    case (Some l)
    then show ?thesis
      by (simp add: p2_def store_ok_setup_layout [OF p1 empty])
  qed
  then have "store_ok (fst (drain arrivals p2))"
    by (rule drain_store_ok)
  then show ?thesis
    unfolding generic_initialization_def Let_def p2_def p1_def .
qed

lemma generic_initialization_live:
  assumes "live_robots p ! i \<noteq> 0"
  shows "live_robots (fst (generic_initialization self layout discovered arrivals p)) ! i \<noteq> 0"
proof (cases layout)
  case None
  show ?thesis
    unfolding generic_initialization_def Let_def None option.case
    by (rule drain_live) (simp add: auto_setup_class_lists assms)
next
  case (Some l)
  show ?thesis
    unfolding generic_initialization_def Let_def Some option.case
    by (rule drain_live) (simp add: setup_layout_class_lists assms)
qed

lemma generic_initialization_registry_ok:
  assumes "registry_ok p"
  shows "registry_ok (fst (generic_initialization self layout discovered arrivals p))"
proof (cases layout)
  case None
  show ?thesis
    unfolding generic_initialization_def Let_def None option.case
    by (rule drain_registry_ok) (use assms in \<open>simp add: registry_ok_def auto_setup_class_lists\<close>)
next
  case (Some l)
  show ?thesis
    unfolding generic_initialization_def Let_def Some option.case
    by (rule drain_registry_ok) (use assms in \<open>simp add: registry_ok_def setup_layout_class_lists\<close>)
qed

text \<open>The state a constructor leaves, whatever its outcome.\<close>

lemma FirmataTCPBoard_init_state:
  "fst (FirmataTCPBoard_init self layout debug connected discovered arrivals p) =
     (if connected
      then fst (generic_initialization self layout discovered arrivals (fresh_dicts self p))
      else fresh_dicts self p)"
  by (simp add: FirmataTCPBoard_init_def Let_def split: prod.splits option.splits)

lemma FirmataSerialBoard_init_state:
  "fst (FirmataSerialBoard_init self layout debug opened discovered arrivals p) =
     (if opened
      then fst (generic_initialization self layout discovered arrivals (fresh_dicts self p))
      else fresh_dicts self p)"
  by (simp add: FirmataSerialBoard_init_def Let_def split: prod.splits option.splits)

lemma constructors_store_ok:
  assumes "store_ok p"
  shows "store_ok (fst (FirmataTCPBoard_init self layout debug connected discovered arrivals p))"
    and "store_ok (fst (FirmataSerialBoard_init self layout debug opened discovered arrivals p))"
  using store_ok_generic_initialization [OF store_ok_fresh_dicts [OF assms, of self]
      fresh_dicts_empty, of layout discovered arrivals]
    store_ok_fresh_dicts [OF assms, of self]
  by (simp_all add: FirmataTCPBoard_init_state FirmataSerialBoard_init_state)

lemma constructors_live:
  assumes "live_robots p ! i \<noteq> 0"
  shows "live_robots (fst (FirmataTCPBoard_init self layout debug connected discovered arrivals p)) ! i \<noteq> 0"
    and "live_robots (fst (FirmataSerialBoard_init self layout debug opened discovered arrivals p)) ! i \<noteq> 0"
  using generic_initialization_live [of "fresh_dicts self p" i self layout discovered arrivals] assms
  by (simp_all add: FirmataTCPBoard_init_state FirmataSerialBoard_init_state fresh_dicts_class_lists)

lemma constructors_registry_ok:
  assumes "registry_ok p"
  shows "registry_ok (fst (FirmataTCPBoard_init self layout debug connected discovered arrivals p))"
    and "registry_ok (fst (FirmataSerialBoard_init self layout debug opened discovered arrivals p))"
proof -
  have "registry_ok (fresh_dicts self p)"
    using assms by (simp add: registry_ok_def fresh_dicts_class_lists)
  then show
    "registry_ok (fst (FirmataTCPBoard_init self layout debug connected discovered arrivals p))"
    "registry_ok (fst (FirmataSerialBoard_init self layout debug opened discovered arrivals p))"
    by (simp_all add: FirmataTCPBoard_init_state FirmataSerialBoard_init_state
        generic_initialization_registry_ok)
qed

subsection \<open>Every operation keeps the invariants\<close>

lemma perform_store_ok: "store_ok p \<Longrightarrow> store_ok (perform operation p)"
  by (cases operation)
    (simp_all add: perform_def store_ok_run_decoder store_ok_pin_analog_value
      store_ok_pin_digital_value constructors_store_ok)

lemma perform_registry_ok: "registry_ok p \<Longrightarrow> registry_ok (perform operation p)"
  by (cases operation)
    (simp_all add: perform_def run_decoder_registry_ok constructors_registry_ok,
      simp_all add: registry_ok_def pin_analog_value_class_lists pin_digital_value_class_lists)

lemma perform_live: "live_robots p ! i \<noteq> 0 \<Longrightarrow> live_robots (perform operation p) ! i \<noteq> 0"
  by (cases operation)
    (simp_all add: perform_def run_decoder_live constructors_live
      pin_analog_value_class_lists pin_digital_value_class_lists)

lemma perform_all_store_ok: "store_ok p \<Longrightarrow> store_ok (perform_all operations p)"
  by (induction operations arbitrary: p) (simp_all add: perform_store_ok)

lemma perform_all_registry_ok: "registry_ok p \<Longrightarrow> registry_ok (perform_all operations p)"
  by (induction operations arbitrary: p) (simp_all add: perform_registry_ok)

lemma perform_all_live:
  "live_robots p ! i \<noteq> 0 \<Longrightarrow> live_robots (perform_all operations p) ! i \<noteq> 0"
  by (induction operations arbitrary: p) (simp_all add: perform_live)

text \<open>Every state the process can reach from the class body is well-formed.\<close>

lemma reachable_ok:
  "registry_ok (perform_all operations process0)"
  "store_ok (perform_all operations process0)"
  by (simp_all add: perform_all_registry_ok registry_ok_process0 perform_all_store_ok
      store_ok_process0)

subsection \<open>Dictionary entries stay\<close>

lemma drain_keeps_analog:
  "pin_analog_value_dict (instances p s) i = Some r \<Longrightarrow>
   pin_analog_value_dict (instances (fst (drain arrivals p)) s) i = Some r"
proof (induction arrivals arbitrary: p)
  case Nil
  then show ?case by simp
next
  case (Cons a arrivals)
  obtain d target data where a: "a = (d, target, data)"
    by (cases a)
  obtain p1 e where step: "run_decoder d target data p = (p1, e)"
    by (cases "run_decoder d target data p")
  from run_decoder_keeps_analog [OF Cons.prems, of d target data] step
  have "pin_analog_value_dict (instances p1 s) i = Some r"
    by simp
  with Cons.IH [of p1] show ?case
    by (cases e) (simp_all add: a step)
qed

lemma drain_keeps_digital:
  "pin_digital_value_dict (instances p s) i = Some r \<Longrightarrow>
   pin_digital_value_dict (instances (fst (drain arrivals p)) s) i = Some r"
proof (induction arrivals arbitrary: p)
  case Nil
  then show ?case by simp
next
  case (Cons a arrivals)
  obtain d target data where a: "a = (d, target, data)"
    by (cases a)
  obtain p1 e where step: "run_decoder d target data p = (p1, e)"
    by (cases "run_decoder d target data p")
  from run_decoder_keeps_digital [OF Cons.prems, of d target data] step
  have "pin_digital_value_dict (instances p1 s) i = Some r"
    by simp
  with Cons.IH [of p1] show ?case
    by (cases e) (simp_all add: a step)
qed

lemma before_drain_other_instance:
  assumes "s \<noteq> self"
  shows "instances (fresh_dicts self p) s = instances p s"
    and "instances (setup_layout self l p) s = instances p s"
    and "instances (auto_setup self l p) s = instances p s"
  using assms by (simp_all add: fresh_dicts_def setup_layout_def auto_setup_def Let_def)

lemma generic_initialization_keeps:
  assumes "s \<noteq> self"
  shows "pin_analog_value_dict (instances p s) i = Some r \<Longrightarrow>
      pin_analog_value_dict
        (instances (fst (generic_initialization self layout discovered arrivals p)) s) i = Some r"
    and "pin_digital_value_dict (instances p s) i = Some r \<Longrightarrow>
      pin_digital_value_dict
        (instances (fst (generic_initialization self layout discovered arrivals p)) s) i = Some r"
proof -
  define p2 where "p2 =
    (case layout of
       Some l \<Rightarrow> setup_layout self l
         (p\<lparr>instances := (instances p)(self := (instances p self)\<lparr>layout_attr := layout\<rparr>)\<rparr>)
     | None \<Rightarrow> auto_setup self discovered
         (p\<lparr>instances := (instances p)(self := (instances p self)\<lparr>layout_attr := layout\<rparr>)\<rparr>))"
  have same: "instances p2 s = instances p s"
    using assms by (cases layout) (simp_all add: p2_def before_drain_other_instance)
  have run: "fst (generic_initialization self layout discovered arrivals p) = fst (drain arrivals p2)"
    unfolding generic_initialization_def Let_def p2_def ..
  show "pin_analog_value_dict (instances p s) i = Some r \<Longrightarrow>
      pin_analog_value_dict
        (instances (fst (generic_initialization self layout discovered arrivals p)) s) i = Some r"
    unfolding run by (rule drain_keeps_analog) (simp add: same)
  show "pin_digital_value_dict (instances p s) i = Some r \<Longrightarrow>
      pin_digital_value_dict
        (instances (fst (generic_initialization self layout discovered arrivals p)) s) i = Some r"
    unfolding run by (rule drain_keeps_digital) (simp add: same)
qed

lemma perform_keeps_analog:
  assumes "\<not> constructs operation s" and "pin_analog_value_dict (instances p s) i = Some r"
  shows "pin_analog_value_dict (instances (perform operation p) s) i = Some r"
proof (cases operation)
  case (Decode d self data)
  with assms(2) show ?thesis
    by (simp add: perform_def run_decoder_keeps_analog)
next
  case (Pin_analog_value self robotid)
  with assms(2) show ?thesis
    by (simp add: perform_def pin_analog_value_keeps_analog)
next
  case (Pin_digital_value self robotid)
  with assms(2) show ?thesis
    by (simp add: perform_def pin_digital_value_keeps_analog)
next
  case (New_FirmataTCPBoard self layout debug connected discovered arrivals)
  with assms(1) have other: "s \<noteq> self"
    by auto
  then have "pin_analog_value_dict (instances (fresh_dicts self p) s) i = Some r"
    using assms(2) by (simp add: before_drain_other_instance)
  with other show ?thesis
    by (simp add: perform_def New_FirmataTCPBoard FirmataTCPBoard_init_state
        generic_initialization_keeps)
next
  case (New_FirmataSerialBoard self layout debug opened discovered arrivals)
  with assms(1) have other: "s \<noteq> self"
    by auto
  then have "pin_analog_value_dict (instances (fresh_dicts self p) s) i = Some r"
    using assms(2) by (simp add: before_drain_other_instance)
  with other show ?thesis
    by (simp add: perform_def New_FirmataSerialBoard FirmataSerialBoard_init_state
        generic_initialization_keeps)
qed

lemma perform_keeps_digital:
  assumes "\<not> constructs operation s" and "pin_digital_value_dict (instances p s) i = Some r"
  shows "pin_digital_value_dict (instances (perform operation p) s) i = Some r"
proof (cases operation)
  case (Decode d self data)
  with assms(2) show ?thesis
    by (simp add: perform_def run_decoder_keeps_digital)
next
  case (Pin_analog_value self robotid)
  with assms(2) show ?thesis
    by (simp add: perform_def pin_analog_value_keeps_digital)
next
  case (Pin_digital_value self robotid)
  with assms(2) show ?thesis
    by (simp add: perform_def pin_digital_value_keeps_digital)
next
  case (New_FirmataTCPBoard self layout debug connected discovered arrivals)
  with assms(1) have other: "s \<noteq> self"
    by auto
  then have "pin_digital_value_dict (instances (fresh_dicts self p) s) i = Some r"
    using assms(2) by (simp add: before_drain_other_instance)
  with other show ?thesis
    by (simp add: perform_def New_FirmataTCPBoard FirmataTCPBoard_init_state
        generic_initialization_keeps)
next
  case (New_FirmataSerialBoard self layout debug opened discovered arrivals)
  with assms(1) have other: "s \<noteq> self"
    by auto
  then have "pin_digital_value_dict (instances (fresh_dicts self p) s) i = Some r"
    using assms(2) by (simp add: before_drain_other_instance)
  with other show ?thesis
    by (simp add: perform_def New_FirmataSerialBoard FirmataSerialBoard_init_state
        generic_initialization_keeps)
qed

lemma perform_all_keeps_analog:
  assumes "\<forall>operation \<in> set operations. \<not> constructs operation s"
    and "pin_analog_value_dict (instances p s) i = Some r"
  shows "pin_analog_value_dict (instances (perform_all operations p) s) i = Some r"
  using assms by (induction operations arbitrary: p) (simp_all add: perform_keeps_analog)

lemma perform_all_keeps_digital:
  assumes "\<forall>operation \<in> set operations. \<not> constructs operation s"
    and "pin_digital_value_dict (instances p s) i = Some r"
  shows "pin_digital_value_dict (instances (perform_all operations p) s) i = Some r"
  using assms by (induction operations arbitrary: p) (simp_all add: perform_keeps_digital)

subsection \<open>The example sessions\<close>

lemma one_board_instance:
  "analog (instances one_board 0) = [0..<7]"
  "digital (instances one_board 0) = [0..<19]"
  "pin_analog_value_dict (instances one_board 0) = Map.empty"
  "pin_digital_value_dict (instances one_board 0) = Map.empty"
  "next_ref one_board = 0"
  by (simp_all add: one_board_def FirmataTCPBoard_init_def generic_initialization_def
      setup_layout_def fresh_dicts_def process0_def blank_board_def BOARDS_duinobot_def Let_def)

lemma one_board_ok: "store_ok one_board" "registry_ok one_board"
  unfolding one_board_def
  by (simp_all add: constructors_store_ok store_ok_process0 constructors_registry_ok
      registry_ok_process0)

lemma two_boards_instances:
  "analog (instances two_boards 0) = [0..<7]"
  "digital (instances two_boards 0) = [0..<19]"
  "pin_analog_value_dict (instances two_boards 0) = Map.empty"
  "pin_digital_value_dict (instances two_boards 0) = Map.empty"
  "analog (instances two_boards 1) = [0..<7]"
  "digital (instances two_boards 1) = [0..<19]"
  "pin_analog_value_dict (instances two_boards 1) = Map.empty"
  "pin_digital_value_dict (instances two_boards 1) = Map.empty"
  "next_ref two_boards = 0"
  by (simp_all add: two_boards_def one_board_def FirmataTCPBoard_init_def
      FirmataSerialBoard_init_def generic_initialization_def
      setup_layout_def fresh_dicts_def process0_def blank_board_def BOARDS_duinobot_def Let_def)

lemma two_boards_ok: "store_ok two_boards" "registry_ok two_boards"
  unfolding two_boards_def
  by (simp_all add: constructors_store_ok constructors_registry_ok one_board_ok)

subsection \<open>The presence flag\<close>

text \<open>
  C5. Once the broadcast decoder has set \<open>live_robots[robot]\<close> to 1, no sequence of
  operations of this layer (decoders on any instance with any payload, accessors,
  constructors) makes it 0 again. More generally a slot of \<open>live_robots\<close> that is not 0
  stays so.
\<close>

theorem live_flag_never_reset:
  "(registry_ok p \<and> 0 \<le> robot \<and> robot \<le> 127 \<longrightarrow>
      live_robots (fst (handle_sysex_broadcast self [robot] p)) ! nat robot = 1 \<and>
      live_robots (perform_all operations (fst (handle_sysex_broadcast self [robot] p))) ! nat robot \<noteq> 0) \<and>
   (live_robots p ! i \<noteq> 0 \<longrightarrow> live_robots (perform_all operations p) ! i \<noteq> 0)"
proof (intro conjI impI)
  assume ok: "registry_ok p \<and> 0 \<le> robot \<and> robot \<le> 127"
  then have slot: "nat robot < length (live_robots p)"
    by (auto simp: registry_ok_def)
  from ok have "handle_sysex_broadcast self [robot] p =
      (p\<lparr>live_robots := (live_robots p)[nat robot := 1]\<rparr>, None)"
    by (simp add: handle_sysex_broadcast_ok)
  with slot show set: "live_robots (fst (handle_sysex_broadcast self [robot] p)) ! nat robot = 1"
    by simp
  then have "live_robots (fst (handle_sysex_broadcast self [robot] p)) ! nat robot \<noteq> 0"
    by simp
  then show "live_robots (perform_all operations (fst (handle_sysex_broadcast self [robot] p))) !
      nat robot \<noteq> 0"
    by (rule perform_all_live)
next
  assume "live_robots p ! i \<noteq> 0"
  then show "live_robots (perform_all operations p) ! i \<noteq> 0"
    by (rule perform_all_live)
qed

text \<open>
  Robot 7 is announced on the example session; then come a ping and a short broadcast
  frame, a pin command, a broadcast for another robot, and a second board built on a
  peer that does not connect. The flag of robot 7 is still set.
\<close>

theorem live_flag_never_reset_witness:
  "registry_ok one_board \<and>
   live_robots (fst (handle_sysex_broadcast 0 [7] one_board)) ! 7 = 1 \<and>
   live_robots
     (perform_all
        [Decode Handle_sysex_ping 0 [1, 0, 7],
         Decode Handle_sysex_broadcast 0 [],
         Decode Handle_sysex_pin_commands 0 [2, 1, 3, 7],
         Decode Handle_sysex_broadcast 0 [8],
         New_FirmataTCPBoard 1 None True False BOARDS_duinobot []]
        (fst (handle_sysex_broadcast 0 [7] one_board))) ! 7 \<noteq> 0"
  using live_flag_never_reset [of one_board 7 0
      "[Decode Handle_sysex_ping 0 [1, 0, 7],
        Decode Handle_sysex_broadcast 0 [],
        Decode Handle_sysex_pin_commands 0 [2, 1, 3, 7],
        Decode Handle_sysex_broadcast 0 [8],
        New_FirmataTCPBoard 1 None True False BOARDS_duinobot []]"]
    one_board_ok(2)
  by simp

subsection \<open>The layout of a TCP board\<close>

lemma before_drain_base_calls:
  "base_calls (instances (fresh_dicts self p) s) = base_calls (instances p s)"
  "base_calls (instances (setup_layout self l p) self) = base_calls (instances p self) @ [Setup_layout l]"
  "base_calls (instances (auto_setup self l p) self) =
     base_calls (instances p self) @ [Auto_setup, Setup_layout l]"
  by (simp_all add: fresh_dicts_def setup_layout_def auto_setup_def Let_def)

text \<open>
  C9, as the code has it. A TCP board whose socket connects makes one layout call when
  it is given a layout, \<^verbatim>\<open>setup_layout\<close> with that layout, and no auto-discovery; given
  a layout that Python takes for false it calls \<^verbatim>\<open>auto_setup\<close>, which sets the board up
  with the layout the peer reports. A board whose socket does not connect makes no
  layout call.
\<close>

theorem tcp_board_layout_calls:
  "base_calls
     (instances
        (fst (FirmataTCPBoard_init self layout debug connected discovered arrivals p)) self) =
   base_calls (instances p self) @
     (if connected
      then (case layout of
              Some l \<Rightarrow> [Setup_layout l]
            | None \<Rightarrow> [Auto_setup, Setup_layout discovered])
      else [])"
  by (cases layout)
    (simp_all add: FirmataTCPBoard_init_state generic_initialization_def Let_def
      drain_base_calls before_drain_base_calls)

text \<open>
  C9 as stated fails: built with no layout, the TCP board of the example calls
  \<^verbatim>\<open>auto_setup\<close>.
\<close>

theorem tcp_board_without_layout_discovers:
  "base_calls
     (instances (fst (FirmataTCPBoard_init 0 None False True BOARDS_duinobot [] process0)) 0) =
   [Auto_setup, Setup_layout BOARDS_duinobot]"
  by (simp add: FirmataTCPBoard_init_def generic_initialization_def auto_setup_def
      setup_layout_def fresh_dicts_def process0_def blank_board_def Let_def)

text \<open>Built with the duinobot layout, the TCP board of the example makes no discovery.\<close>

theorem tcp_board_layout_calls_witness:
  "base_calls (instances one_board 0) = [Setup_layout BOARDS_duinobot] \<and>
   Auto_setup \<notin> set (base_calls (instances one_board 0))"
  using tcp_board_layout_calls [of 0 "Some BOARDS_duinobot" False True BOARDS_duinobot "[]" process0]
  by (simp add: one_board_def process0_def blank_board_def)

subsection \<open>The pin-commands decoder on a well-formed payload\<close>

lemma pin_analog_value_length:
  assumes "store_ok p"
  shows "length (heap (snd (pin_analog_value self robot p)) (fst (pin_analog_value self robot p))) =
    length (analog (instances p self))"
proof (cases "pin_analog_value_dict (instances p self) robot")
  case None
  then show ?thesis
    by (simp add: pin_analog_value_def Let_def)
next
  case (Some r)
  with store_ok_analog_length [OF assms Some] show ?thesis
    by (simp add: pin_analog_value_present)
qed

lemma pin_digital_value_length:
  assumes "store_ok p"
  shows "length (heap (snd (pin_digital_value self robot p)) (fst (pin_digital_value self robot p))) =
    length (digital (instances p self))"
proof (cases "pin_digital_value_dict (instances p self) robot")
  case None
  then show ?thesis
    by (simp add: pin_digital_value_def Let_def)
next
  case (Some r)
  with store_ok_digital_length [OF assms Some] show ?thesis
    by (simp add: pin_digital_value_present)
qed

text \<open>The decoder once its payload reads have succeeded, get-analog and get-digital.\<close>

lemma handle_sysex_pin_commands_analog:
  assumes "pin_analog_value self robot p = (r, p1)"
  shows "handle_sysex_pin_commands self (1 # msb # lsb # pin # robot # rest) p =
    (case setitem (heap p1 r) pin (push_bit 7 msb + lsb) of
       Inl e \<Rightarrow> (p1, Some e)
     | Inr xs \<Rightarrow> (p1\<lparr>heap := (heap p1)(r := xs)\<rparr>, None))"
  by (simp add: handle_sysex_pin_commands_def PIN_GET_ANALOG_def getitem_0 getitem_1 getitem_2
      getitem_3 getitem_4 assms)

lemma handle_sysex_pin_commands_digital:
  assumes "pin_digital_value self robot p = (r, p1)"
  shows "handle_sysex_pin_commands self (2 # val # pin # robot # rest) p =
    (case setitem (heap p1 r) pin val of
       Inl e \<Rightarrow> (p1, Some e)
     | Inr xs \<Rightarrow> (p1\<lparr>heap := (heap p1)(r := xs)\<rparr>, None))"
  by (simp add: handle_sysex_pin_commands_def PIN_GET_ANALOG_def PIN_GET_DIGITAL_def getitem_0
      getitem_1 getitem_2 getitem_3 assms)

text \<open>
  C3, as the code has it. In a well-formed store, a get-analog payload
  \<open>[1, msb, lsb, pin, robot]\<close> whose \<open>pin\<close> is one of the analog pins of the instance
  (\<open>0 \<le> pin\<close> below their number) raises nothing, and afterwards the list that
  \<open>pin_analog_value robot\<close> returns holds \<open>(msb << 7) + lsb\<close> in slot \<open>pin\<close> and has one
  slot per analog pin. A get-digital payload \<open>[2, val, pin, robot]\<close> whose \<open>pin\<close> is one
  of the digital pins does the same with \<open>val\<close> and \<open>pin_digital_value\<close>. With a \<open>pin\<close>
  at or beyond the number of pins the decoder raises IndexError.
\<close>

theorem pin_commands_store_per_pin_value:
  assumes "store_ok p"
    and "pa = fst (handle_sysex_pin_commands self [1, msb, lsb, pin, robot] p)"
    and "pd = fst (handle_sysex_pin_commands self [2, val, pin, robot] p)"
  shows "(0 \<le> pin \<and> pin < int (length (analog (instances p self))) \<longrightarrow>
            snd (handle_sysex_pin_commands self [1, msb, lsb, pin, robot] p) = None \<and>
            heap pa (fst (pin_analog_value self robot pa)) ! nat pin = push_bit 7 msb + lsb \<and>
            length (heap pa (fst (pin_analog_value self robot pa))) =
              length (analog (instances p self)) \<and>
            snd (pin_analog_value self robot pa) = pa) \<and>
         (0 \<le> pin \<and> pin < int (length (digital (instances p self))) \<longrightarrow>
            snd (handle_sysex_pin_commands self [2, val, pin, robot] p) = None \<and>
            heap pd (fst (pin_digital_value self robot pd)) ! nat pin = val \<and>
            length (heap pd (fst (pin_digital_value self robot pd))) =
              length (digital (instances p self)) \<and>
            snd (pin_digital_value self robot pd) = pd) \<and>
         (int (length (analog (instances p self))) \<le> pin \<longrightarrow>
            snd (handle_sysex_pin_commands self [1, msb, lsb, pin, robot] p) = Some IndexError) \<and>
         (int (length (digital (instances p self))) \<le> pin \<longrightarrow>
            snd (handle_sysex_pin_commands self [2, val, pin, robot] p) = Some IndexError)"
proof (intro conjI impI)
  obtain r p1 where acc: "pin_analog_value self robot p = (r, p1)"
    by (cases "pin_analog_value self robot p")
  have len: "length (heap p1 r) = length (analog (instances p self))"
    using pin_analog_value_length [OF assms(1), of self robot] by (simp add: acc)
  have held: "pin_analog_value_dict (instances p1 self) robot = Some r"
    by (rule pin_analog_value_stores [OF acc])
  {
    assume pin: "0 \<le> pin \<and> pin < int (length (analog (instances p self)))"
    then have slot: "nat pin < length (heap p1 r)"
      by (auto simp: len)
    from pin have run: "handle_sysex_pin_commands self [1, msb, lsb, pin, robot] p =
        (p1\<lparr>heap := (heap p1)(r := (heap p1 r)[nat pin := push_bit 7 msb + lsb])\<rparr>, None)"
      by (simp add: handle_sysex_pin_commands_analog [OF acc] setitem_within len)
    then show "snd (handle_sysex_pin_commands self [1, msb, lsb, pin, robot] p) = None"
      by simp
    from run have pa: "pa = p1\<lparr>heap := (heap p1)(r := (heap p1 r)[nat pin := push_bit 7 msb + lsb])\<rparr>"
      by (simp add: assms(2))
    have again: "pin_analog_value self robot pa = (r, pa)"
      by (rule pin_analog_value_present) (simp add: pa held)
    then show "snd (pin_analog_value self robot pa) = pa"
      by simp
    from again slot show "heap pa (fst (pin_analog_value self robot pa)) ! nat pin =
        push_bit 7 msb + lsb"
      by (simp add: pa)
    from again show "length (heap pa (fst (pin_analog_value self robot pa))) =
        length (analog (instances p self))"
      by (simp add: pa len)
  }
  {
    assume "int (length (analog (instances p self))) \<le> pin"
    then show "snd (handle_sysex_pin_commands self [1, msb, lsb, pin, robot] p) = Some IndexError"
      by (simp add: handle_sysex_pin_commands_analog [OF acc] setitem_beyond len)
  }
next
  obtain r p1 where acc: "pin_digital_value self robot p = (r, p1)"
    by (cases "pin_digital_value self robot p")
  have len: "length (heap p1 r) = length (digital (instances p self))"
    using pin_digital_value_length [OF assms(1), of self robot] by (simp add: acc)
  have held: "pin_digital_value_dict (instances p1 self) robot = Some r"
    by (rule pin_digital_value_stores [OF acc])
  {
    assume pin: "0 \<le> pin \<and> pin < int (length (digital (instances p self)))"
    then have slot: "nat pin < length (heap p1 r)"
      by (auto simp: len)
    from pin have run: "handle_sysex_pin_commands self [2, val, pin, robot] p =
        (p1\<lparr>heap := (heap p1)(r := (heap p1 r)[nat pin := val])\<rparr>, None)"
      by (simp add: handle_sysex_pin_commands_digital [OF acc] setitem_within len)
    then show "snd (handle_sysex_pin_commands self [2, val, pin, robot] p) = None"
      by simp
    from run have pd: "pd = p1\<lparr>heap := (heap p1)(r := (heap p1 r)[nat pin := val])\<rparr>"
      by (simp add: assms(3))
    have again: "pin_digital_value self robot pd = (r, pd)"
      by (rule pin_digital_value_present) (simp add: pd held)
    then show "snd (pin_digital_value self robot pd) = pd"
      by simp
    from again slot show "heap pd (fst (pin_digital_value self robot pd)) ! nat pin = val"
      by (simp add: pd)
    from again show "length (heap pd (fst (pin_digital_value self robot pd))) =
        length (digital (instances p self))"
      by (simp add: pd len)
  }
  {
    assume "int (length (digital (instances p self))) \<le> pin"
    then show "snd (handle_sysex_pin_commands self [2, val, pin, robot] p) = Some IndexError"
      by (simp add: handle_sysex_pin_commands_digital [OF acc] setitem_beyond len)
  }
qed

text \<open>
  The scenario of C3 on the example session: \<open>PinCommand(GET_DIGITAL, value=1, pin=3,
  robot=4)\<close> makes slot 3 of \<open>pin_digital_value(4)\<close> equal 1, and the list has the
  nineteen slots of the duinobot layout; a get-analog command for pin 2 stores 133 in a
  list of seven slots.
\<close>

theorem pin_commands_store_per_pin_value_witness:
  "store_ok one_board \<and>
   snd (handle_sysex_pin_commands 0 [2, 1, 3, 4] one_board) = None \<and>
   heap (fst (handle_sysex_pin_commands 0 [2, 1, 3, 4] one_board))
     (fst (pin_digital_value 0 4 (fst (handle_sysex_pin_commands 0 [2, 1, 3, 4] one_board)))) ! 3 = 1 \<and>
   length (heap (fst (handle_sysex_pin_commands 0 [2, 1, 3, 4] one_board))
     (fst (pin_digital_value 0 4 (fst (handle_sysex_pin_commands 0 [2, 1, 3, 4] one_board))))) = 19 \<and>
   heap (fst (handle_sysex_pin_commands 0 [1, 1, 5, 3, 4] one_board))
     (fst (pin_analog_value 0 4 (fst (handle_sysex_pin_commands 0 [1, 1, 5, 3, 4] one_board)))) ! 3 = 133 \<and>
   length (heap (fst (handle_sysex_pin_commands 0 [1, 1, 5, 3, 4] one_board))
     (fst (pin_analog_value 0 4 (fst (handle_sysex_pin_commands 0 [1, 1, 5, 3, 4] one_board))))) = 7"
  using pin_commands_store_per_pin_value
      [where p = one_board and self = 0 and msb = 1 and lsb = 5 and pin = 3 and robot = 4
         and val = 1, OF one_board_ok(1) refl refl]
    one_board_ok(1)
  by (simp add: one_board_instance)

text \<open>
  C3 as stated fails: pin 100 is a byte a get-analog payload can carry, the example
  board has seven analog pins, and the decoder raises IndexError. The list it has
  created for robot 4 meanwhile holds \<open>-1\<close> in all seven slots.
\<close>

theorem pin_command_beyond_pins_raises:
  "snd (handle_sysex_pin_commands 0 [1, 0, 5, 100, 4] one_board) = Some IndexError \<and>
   heap (fst (handle_sysex_pin_commands 0 [1, 0, 5, 100, 4] one_board))
     (fst (pin_analog_value 0 4 (fst (handle_sysex_pin_commands 0 [1, 0, 5, 100, 4] one_board)))) =
     replicate 7 (- 1)"
proof -
  have acc: "pin_analog_value 0 4 one_board =
      (0, one_board\<lparr>instances := (instances one_board)
             (0 := (instances one_board 0)\<lparr>pin_analog_value_dict := [4 \<mapsto> 0]\<rparr>),
           heap := (heap one_board)(0 := replicate 7 (- 1)),
           next_ref := Suc 0\<rparr>)"
    by (simp add: pin_analog_value_def Let_def one_board_instance)
  have run: "handle_sysex_pin_commands 0 [1, 0, 5, 100, 4] one_board =
      (snd (pin_analog_value 0 4 one_board), Some IndexError)"
    by (simp add: handle_sysex_pin_commands_analog [OF acc] acc setitem_beyond)
  have again: "pin_analog_value 0 4 (snd (pin_analog_value 0 4 one_board)) =
      pin_analog_value 0 4 one_board"
    by (simp add: pin_analog_value_again [OF surjective_pairing])
  show ?thesis
    unfolding run fst_conv snd_conv again
    by (simp add: acc)
qed

subsection \<open>The lazy accessors\<close>

text \<open>
  C4. The first call of \<open>pin_analog_value\<close> for a robot id (the key is absent) hands out
  a new list object, of one slot per analog pin of the instance, every slot \<open>-1\<close>, and
  stores it under the robot id; in a well-formed store no dictionary held that object
  before. A call for a robot id that has a list returns that list and changes nothing in
  the process: neither the dictionaries nor the contents of any list. So a call made
  right after any call returns the same object and leaves the state as it is, and a call
  made after any further operations that do not construct the instance anew returns the
  same object, with whatever those operations have written into it, and leaves the state
  as they left it. The same holds of \<open>pin_digital_value\<close> with the digital pins.
\<close>

theorem accessors_allocate_once:
  "(pin_analog_value_dict (instances p self) robotid = None \<longrightarrow>
      heap (snd (pin_analog_value self robotid p)) (fst (pin_analog_value self robotid p)) =
        replicate (length (analog (instances p self))) (- 1) \<and>
      pin_analog_value_dict (instances (snd (pin_analog_value self robotid p)) self) robotid =
        Some (fst (pin_analog_value self robotid p)) \<and>
      fst (pin_analog_value self robotid p) = next_ref p \<and>
      (store_ok p \<longrightarrow>
        (\<forall>s i. pin_analog_value_dict (instances p s) i \<noteq> Some (fst (pin_analog_value self robotid p)) \<and>
               pin_digital_value_dict (instances p s) i \<noteq> Some (fst (pin_analog_value self robotid p))))) \<and>
   (pin_digital_value_dict (instances p self) robotid = None \<longrightarrow>
      heap (snd (pin_digital_value self robotid p)) (fst (pin_digital_value self robotid p)) =
        replicate (length (digital (instances p self))) (- 1) \<and>
      pin_digital_value_dict (instances (snd (pin_digital_value self robotid p)) self) robotid =
        Some (fst (pin_digital_value self robotid p)) \<and>
      fst (pin_digital_value self robotid p) = next_ref p \<and>
      (store_ok p \<longrightarrow>
        (\<forall>s i. pin_analog_value_dict (instances p s) i \<noteq> Some (fst (pin_digital_value self robotid p)) \<and>
               pin_digital_value_dict (instances p s) i \<noteq> Some (fst (pin_digital_value self robotid p))))) \<and>
   (pin_analog_value_dict (instances p self) robotid = Some r \<longrightarrow>
      pin_analog_value self robotid p = (r, p) \<and>
      heap (snd (pin_analog_value self robotid p)) (fst (pin_analog_value self robotid p)) =
        heap p r) \<and>
   (pin_digital_value_dict (instances p self) robotid = Some r \<longrightarrow>
      pin_digital_value self robotid p = (r, p) \<and>
      heap (snd (pin_digital_value self robotid p)) (fst (pin_digital_value self robotid p)) =
        heap p r) \<and>
   pin_analog_value self robotid (snd (pin_analog_value self robotid p)) =
     pin_analog_value self robotid p \<and>
   pin_digital_value self robotid (snd (pin_digital_value self robotid p)) =
     pin_digital_value self robotid p \<and>
   ((\<forall>operation \<in> set operations. \<not> constructs operation self) \<longrightarrow>
      fst (pin_analog_value self robotid
             (perform_all operations (snd (pin_analog_value self robotid p)))) =
        fst (pin_analog_value self robotid p) \<and>
      snd (pin_analog_value self robotid
             (perform_all operations (snd (pin_analog_value self robotid p)))) =
        perform_all operations (snd (pin_analog_value self robotid p)) \<and>
      fst (pin_digital_value self robotid
             (perform_all operations (snd (pin_digital_value self robotid p)))) =
        fst (pin_digital_value self robotid p) \<and>
      snd (pin_digital_value self robotid
             (perform_all operations (snd (pin_digital_value self robotid p)))) =
        perform_all operations (snd (pin_digital_value self robotid p)))"
proof -
  obtain ra pa where a: "pin_analog_value self robotid p = (ra, pa)"
    by (cases "pin_analog_value self robotid p")
  obtain rd pd where d: "pin_digital_value self robotid p = (rd, pd)"
    by (cases "pin_digital_value self robotid p")
  have first_a: "heap pa ra = replicate (length (analog (instances p self))) (- 1) \<and>
      pin_analog_value_dict (instances pa self) robotid = Some ra \<and> ra = next_ref p"
    if "pin_analog_value_dict (instances p self) robotid = None"
    using pin_analog_value_absent(1,3) [OF that a] pin_analog_value_stores [OF a]
    by simp
  have first_d: "heap pd rd = replicate (length (digital (instances p self))) (- 1) \<and>
      pin_digital_value_dict (instances pd self) robotid = Some rd \<and> rd = next_ref p"
    if "pin_digital_value_dict (instances p self) robotid = None"
    using pin_digital_value_absent(1,3) [OF that d] pin_digital_value_stores [OF d]
    by simp
  have new: "pin_analog_value_dict (instances p s) i \<noteq> Some (next_ref p) \<and>
      pin_digital_value_dict (instances p s) i \<noteq> Some (next_ref p)"
    if "store_ok p" for s i
    using store_ok_analog_bound [OF that, of s i "next_ref p"]
      store_ok_digital_bound [OF that, of s i "next_ref p"]
    by auto
  have again_a: "pin_analog_value self robotid pa = (ra, pa)"
    by (rule pin_analog_value_again [OF a])
  have again_d: "pin_digital_value self robotid pd = (rd, pd)"
    by (rule pin_digital_value_again [OF d])
  have later_a: "pin_analog_value self robotid (perform_all operations pa) =
      (ra, perform_all operations pa)"
    if "\<forall>operation \<in> set operations. \<not> constructs operation self"
    by (rule pin_analog_value_present
        [OF perform_all_keeps_analog [OF that pin_analog_value_stores [OF a]]])
  have later_d: "pin_digital_value self robotid (perform_all operations pd) =
      (rd, perform_all operations pd)"
    if "\<forall>operation \<in> set operations. \<not> constructs operation self"
    by (rule pin_digital_value_present
        [OF perform_all_keeps_digital [OF that pin_digital_value_stores [OF d]]])
  have A: "pin_analog_value_dict (instances p self) robotid = None \<longrightarrow>
      heap pa ra = replicate (length (analog (instances p self))) (- 1) \<and>
      pin_analog_value_dict (instances pa self) robotid = Some ra \<and>
      ra = next_ref p \<and>
      (store_ok p \<longrightarrow>
        (\<forall>s i. pin_analog_value_dict (instances p s) i \<noteq> Some ra \<and>
               pin_digital_value_dict (instances p s) i \<noteq> Some ra))"
  proof
    assume none: "pin_analog_value_dict (instances p self) robotid = None"
    from first_a [OF none] have "ra = next_ref p" by simp
    with first_a [OF none] new show "heap pa ra = replicate (length (analog (instances p self))) (- 1) \<and>
      pin_analog_value_dict (instances pa self) robotid = Some ra \<and>
      ra = next_ref p \<and>
      (store_ok p \<longrightarrow>
        (\<forall>s i. pin_analog_value_dict (instances p s) i \<noteq> Some ra \<and>
               pin_digital_value_dict (instances p s) i \<noteq> Some ra))"
      by simp
  qed
  have D: "pin_digital_value_dict (instances p self) robotid = None \<longrightarrow>
      heap pd rd = replicate (length (digital (instances p self))) (- 1) \<and>
      pin_digital_value_dict (instances pd self) robotid = Some rd \<and>
      rd = next_ref p \<and>
      (store_ok p \<longrightarrow>
        (\<forall>s i. pin_analog_value_dict (instances p s) i \<noteq> Some rd \<and>
               pin_digital_value_dict (instances p s) i \<noteq> Some rd))"
  proof
    assume none: "pin_digital_value_dict (instances p self) robotid = None"
    from first_d [OF none] have "rd = next_ref p" by simp
    with first_d [OF none] new show "heap pd rd = replicate (length (digital (instances p self))) (- 1) \<and>
      pin_digital_value_dict (instances pd self) robotid = Some rd \<and>
      rd = next_ref p \<and>
      (store_ok p \<longrightarrow>
        (\<forall>s i. pin_analog_value_dict (instances p s) i \<noteq> Some rd \<and>
               pin_digital_value_dict (instances p s) i \<noteq> Some rd))"
      by simp
  qed
  have PA: "pin_analog_value_dict (instances p self) robotid = Some r \<longrightarrow>
      (ra, pa) = (r, p) \<and> heap pa ra = heap p r"
  proof
    assume "pin_analog_value_dict (instances p self) robotid = Some r"
    from pin_analog_value_present [OF this] a
    show "(ra, pa) = (r, p) \<and> heap pa ra = heap p r"
      by simp
  qed
  have PD: "pin_digital_value_dict (instances p self) robotid = Some r \<longrightarrow>
      (rd, pd) = (r, p) \<and> heap pd rd = heap p r"
  proof
    assume "pin_digital_value_dict (instances p self) robotid = Some r"
    from pin_digital_value_present [OF this] d
    show "(rd, pd) = (r, p) \<and> heap pd rd = heap p r"
      by simp
  qed
  have L: "(\<forall>operation \<in> set operations. \<not> constructs operation self) \<longrightarrow>
      fst (pin_analog_value self robotid (perform_all operations pa)) = ra \<and>
      snd (pin_analog_value self robotid (perform_all operations pa)) = perform_all operations pa \<and>
      fst (pin_digital_value self robotid (perform_all operations pd)) = rd \<and>
      snd (pin_digital_value self robotid (perform_all operations pd)) = perform_all operations pd"
    using later_a later_d by simp
  show ?thesis
    unfolding a d fst_conv snd_conv
    using A D PA PD again_a again_d L by (intro conjI)
qed

text \<open>
  On the example session: the first call for robot 4 hands out seven (nineteen) slots
  of \<open>-1\<close>, and a second call returns the same object and changes nothing. After the pin
  command \<open>[1, 1, 5, 3, 4]\<close> has written 133 into slot 3, a further call returns the same
  object, leaves the state as the command left it, and the list it returns holds 133 in
  slot 3: the stored list is not made anew.
\<close>

theorem accessors_allocate_once_witness:
  "pin_analog_value_dict (instances one_board 0) 4 = None \<and>
   pin_digital_value_dict (instances one_board 0) 4 = None \<and>
   store_ok one_board \<and>
   heap (snd (pin_analog_value 0 4 one_board)) (fst (pin_analog_value 0 4 one_board)) =
     replicate 7 (- 1) \<and>
   heap (snd (pin_digital_value 0 4 one_board)) (fst (pin_digital_value 0 4 one_board)) =
     replicate 19 (- 1) \<and>
   pin_analog_value 0 4 (snd (pin_analog_value 0 4 one_board)) = pin_analog_value 0 4 one_board \<and>
   pin_digital_value 0 4 (snd (pin_digital_value 0 4 one_board)) = pin_digital_value 0 4 one_board \<and>
   fst (pin_analog_value 0 4
          (perform_all [Decode Handle_sysex_pin_commands 0 [1, 1, 5, 3, 4]]
             (snd (pin_analog_value 0 4 one_board)))) =
     fst (pin_analog_value 0 4 one_board) \<and>
   snd (pin_analog_value 0 4
          (perform_all [Decode Handle_sysex_pin_commands 0 [1, 1, 5, 3, 4]]
             (snd (pin_analog_value 0 4 one_board)))) =
     perform_all [Decode Handle_sysex_pin_commands 0 [1, 1, 5, 3, 4]]
       (snd (pin_analog_value 0 4 one_board)) \<and>
   heap (snd (pin_analog_value 0 4
                (perform_all [Decode Handle_sysex_pin_commands 0 [1, 1, 5, 3, 4]]
                   (snd (pin_analog_value 0 4 one_board)))))
        (fst (pin_analog_value 0 4
                (perform_all [Decode Handle_sysex_pin_commands 0 [1, 1, 5, 3, 4]]
                   (snd (pin_analog_value 0 4 one_board))))) ! 3 = 133"
proof -
  let ?operations = "[Decode Handle_sysex_pin_commands 0 [1, 1, 5, 3, 4]]"
  let ?p1 = "one_board\<lparr>instances := (instances one_board)
             (0 := (instances one_board 0)\<lparr>pin_analog_value_dict := [4 \<mapsto> 0]\<rparr>),
           heap := (heap one_board)(0 := replicate 7 (- 1)),
           next_ref := Suc 0\<rparr>"
  note all = accessors_allocate_once [of one_board 0 4 _ ?operations]
  have absent: "pin_analog_value_dict (instances one_board 0) 4 = None"
    "pin_digital_value_dict (instances one_board 0) 4 = None"
    by (simp_all add: one_board_instance)
  have pins: "length (analog (instances one_board 0)) = 7"
    "length (digital (instances one_board 0)) = 19"
    by (simp_all add: one_board_instance)
  have no_constructor: "\<forall>operation \<in> set ?operations. \<not> constructs operation 0"
    by simp
  have acc: "pin_analog_value 0 4 one_board = (0, ?p1)"
    by (simp add: pin_analog_value_def Let_def one_board_instance)
  have acc1: "pin_analog_value 0 4 ?p1 = (0, ?p1)"
    by (simp add: pin_analog_value_def Let_def)
  have written: "heap (perform_all ?operations (snd (pin_analog_value 0 4 one_board))) 0 ! 3 = 133"
    by (simp add: acc perform_def run_decoder_def handle_sysex_pin_commands_analog [OF acc1]
        setitem_within)
  from all absent pins
  have first: "heap (snd (pin_analog_value 0 4 one_board)) (fst (pin_analog_value 0 4 one_board)) =
      replicate 7 (- 1)"
    "heap (snd (pin_digital_value 0 4 one_board)) (fst (pin_digital_value 0 4 one_board)) =
      replicate 19 (- 1)"
    by metis+
  from all no_constructor
  have later: "fst (pin_analog_value 0 4 (perform_all ?operations (snd (pin_analog_value 0 4 one_board)))) =
      fst (pin_analog_value 0 4 one_board)"
    "snd (pin_analog_value 0 4 (perform_all ?operations (snd (pin_analog_value 0 4 one_board)))) =
      perform_all ?operations (snd (pin_analog_value 0 4 one_board))"
    by fast+
  from all
  have again: "pin_analog_value 0 4 (snd (pin_analog_value 0 4 one_board)) = pin_analog_value 0 4 one_board"
    "pin_digital_value 0 4 (snd (pin_digital_value 0 4 one_board)) = pin_digital_value 0 4 one_board"
    by fast+
  have kept: "heap (snd (pin_analog_value 0 4
                (perform_all ?operations (snd (pin_analog_value 0 4 one_board)))))
        (fst (pin_analog_value 0 4
                (perform_all ?operations (snd (pin_analog_value 0 4 one_board))))) ! 3 = 133"
    unfolding later using written by (simp add: acc)
  from absent one_board_ok(1) first again later kept show ?thesis
    by (intro conjI)
qed

subsection \<open>Sessions\<close>

text \<open>
  A list held by another instance is neither the list an accessor returns nor touched
  by the accessor.
\<close>

lemma pin_analog_value_foreign_list:
  assumes "store_ok p" and "s \<noteq> self"
    and "pin_analog_value_dict (instances p s) i = Some r \<or>
         pin_digital_value_dict (instances p s) i = Some r"
  shows "fst (pin_analog_value self robot p) \<noteq> r \<and>
         heap (snd (pin_analog_value self robot p)) r = heap p r"
proof (cases "pin_analog_value_dict (instances p self) robot")
  case None
  from assms(1,3) have "r < next_ref p"
    by (auto dest: store_ok_analog_bound store_ok_digital_bound)
  with None show ?thesis
    by (simp add: pin_analog_value_def Let_def)
next
  case (Some r')
  from assms Some have "r' \<noteq> r"
    by (auto dest: store_ok_analog_unshared store_ok_kinds_unshared)
  with Some show ?thesis
    by (simp add: pin_analog_value_present)
qed

lemma pin_digital_value_foreign_list:
  assumes "store_ok p" and "s \<noteq> self"
    and "pin_analog_value_dict (instances p s) i = Some r \<or>
         pin_digital_value_dict (instances p s) i = Some r"
  shows "fst (pin_digital_value self robot p) \<noteq> r \<and>
         heap (snd (pin_digital_value self robot p)) r = heap p r"
proof (cases "pin_digital_value_dict (instances p self) robot")
  case None
  from assms(1,3) have "r < next_ref p"
    by (auto dest: store_ok_analog_bound store_ok_digital_bound)
  with None show ?thesis
    by (simp add: pin_digital_value_def Let_def)
next
  case (Some r')
  from assms Some have "r' \<noteq> r"
    by (auto dest: store_ok_digital_unshared store_ok_kinds_unshared)
  with Some show ?thesis
    by (simp add: pin_digital_value_present)
qed

lemma handle_sysex_pin_commands_foreign_list:
  assumes "store_ok p" and "s \<noteq> self"
    and "pin_analog_value_dict (instances p s) i = Some r \<or>
         pin_digital_value_dict (instances p s) i = Some r"
  shows "heap (fst (handle_sysex_pin_commands self data p)) r = heap p r"
proof (rule handle_sysex_pin_commands_cases)
  show "heap p r = heap p r" ..
next
  fix robot xs
  from pin_analog_value_foreign_list [OF assms, of robot]
  show "heap ((snd (pin_analog_value self robot p))
      \<lparr>heap := (heap (snd (pin_analog_value self robot p)))
         (fst (pin_analog_value self robot p) := xs)\<rparr>) r = heap p r"
    by simp
next
  fix robot xs
  from pin_digital_value_foreign_list [OF assms, of robot]
  show "heap ((snd (pin_digital_value self robot p))
      \<lparr>heap := (heap (snd (pin_digital_value self robot p)))
         (fst (pin_digital_value self robot p) := xs)\<rparr>) r = heap p r"
    by simp
qed

lemma scalar_decoders_ignore_self:
  "handle_sysex_ping s1 data p = handle_sysex_ping s2 data p"
  "handle_sysex_analog s1 data p = handle_sysex_analog s2 data p"
  "handle_sysex_digital s1 data p = handle_sysex_digital s2 data p"
  "handle_sysex_broadcast s1 data p = handle_sysex_broadcast s2 data p"
  by (simp_all add: handle_sysex_ping_def handle_sysex_analog_def handle_sysex_digital_def
      handle_sysex_broadcast_def)

text \<open>
  C8, as the code has it. The four scalar lists are one store for the whole process: a
  ping, analog, digital or broadcast frame has the same effect on the process whichever
  session decodes it, and the lists it writes belong to no session. The per-pin arrays
  are kept per session: a frame decoded by session \<open>s1\<close> changes no attribute of another
  session \<open>s2\<close> and, in a well-formed store, no list that \<open>s2\<close> holds.
\<close>

theorem scalars_shared_pin_arrays_per_session:
  "(d \<noteq> Handle_sysex_pin_commands \<longrightarrow>
      run_decoder d s1 data p = run_decoder d s2 data p \<and>
      instances (fst (run_decoder d s1 data p)) = instances p \<and>
      heap (fst (run_decoder d s1 data p)) = heap p) \<and>
   (s2 \<noteq> s1 \<longrightarrow> instances (fst (run_decoder d s1 data p)) s2 = instances p s2) \<and>
   (s2 \<noteq> s1 \<and> store_ok p \<and>
      (pin_analog_value_dict (instances p s2) robot = Some r \<or>
       pin_digital_value_dict (instances p s2) robot = Some r) \<longrightarrow>
      heap (fst (run_decoder d s1 data p)) r = heap p r)"
proof (intro conjI impI)
  assume scalar: "d \<noteq> Handle_sysex_pin_commands"
  then show "run_decoder d s1 data p = run_decoder d s2 data p"
    by (cases d) (simp_all add: run_decoder_def scalar_decoders_ignore_self [of s1 data p s2])
  from run_decoder_instances_scalar [OF scalar, of s1 data p]
  show "instances (fst (run_decoder d s1 data p)) = instances p"
    and "heap (fst (run_decoder d s1 data p)) = heap p"
    by simp_all
next
  assume "s2 \<noteq> s1"
  then show "instances (fst (run_decoder d s1 data p)) s2 = instances p s2"
    by (rule run_decoder_other_instance)
next
  assume held: "s2 \<noteq> s1 \<and> store_ok p \<and>
      (pin_analog_value_dict (instances p s2) robot = Some r \<or>
       pin_digital_value_dict (instances p s2) robot = Some r)"
  show "heap (fst (run_decoder d s1 data p)) r = heap p r"
  proof (cases "d = Handle_sysex_pin_commands")
    case True
    with held show ?thesis
      by (simp add: run_decoder_def handle_sysex_pin_commands_foreign_list [of p s2 s1 robot r])
  next
    case False
    from run_decoder_instances_scalar [OF False, of s1 data p] show ?thesis
      by simp
  qed
qed

lemmas two_boards_instances_Suc = two_boards_instances [unfolded One_nat_def]

text \<open>
  On the example with two sessions: a ping decoded by either session leaves the same
  process, with 128 for robot 2; and when session 1 holds a list for robot 4, a pin
  command decoded by session 0 for the same robot leaves that list and session 1 alone.
\<close>

theorem scalars_shared_pin_arrays_per_session_witness:
  "run_decoder Handle_sysex_ping 0 [1, 0, 2] two_boards =
     run_decoder Handle_sysex_ping 1 [1, 0, 2] two_boards \<and>
   instances (fst (run_decoder Handle_sysex_pin_commands 0 [2, 1, 3, 4] two_boards)) 1 =
     instances two_boards 1 \<and>
   store_ok (fst (handle_sysex_pin_commands 1 [2, 0, 5, 4] two_boards)) \<and>
   pin_digital_value_dict (instances (fst (handle_sysex_pin_commands 1 [2, 0, 5, 4] two_boards)) 1) 4 =
     Some 0 \<and>
   heap (fst (run_decoder Handle_sysex_pin_commands 0 [2, 1, 3, 4]
               (fst (handle_sysex_pin_commands 1 [2, 0, 5, 4] two_boards)))) 0 =
     heap (fst (handle_sysex_pin_commands 1 [2, 0, 5, 4] two_boards)) 0"
proof -
  let ?p = "fst (handle_sysex_pin_commands 1 [2, 0, 5, 4] two_boards)"
  have ok: "store_ok ?p"
    by (rule store_ok_handle_sysex_pin_commands) (rule two_boards_ok)
  have acc: "pin_digital_value 1 4 two_boards =
      (0, two_boards\<lparr>instances := (instances two_boards)
             (1 := (instances two_boards 1)\<lparr>pin_digital_value_dict := [4 \<mapsto> 0]\<rparr>),
           heap := (heap two_boards)(0 := replicate 19 (- 1)),
           next_ref := Suc 0\<rparr>)"
    by (simp add: pin_digital_value_def Let_def two_boards_instances_Suc)
  have held: "pin_digital_value_dict (instances ?p 1) 4 = Some 0"
    by (simp add: handle_sysex_pin_commands_digital [OF acc [unfolded One_nat_def]] setitem_within)
  from scalars_shared_pin_arrays_per_session
    [where d = Handle_sysex_ping and ?s1.0 = 0 and data = "[1, 0, 2]" and p = two_boards
       and ?s2.0 = 1]
  have ping: "run_decoder Handle_sysex_ping 0 [1, 0, 2] two_boards =
      run_decoder Handle_sysex_ping 1 [1, 0, 2] two_boards"
    by simp
  from scalars_shared_pin_arrays_per_session
    [where d = Handle_sysex_pin_commands and ?s1.0 = 0 and data = "[2, 1, 3, 4]"
       and p = two_boards and ?s2.0 = 1]
  have other: "instances (fst (run_decoder Handle_sysex_pin_commands 0 [2, 1, 3, 4] two_boards)) 1 =
      instances two_boards 1"
    by simp
  from scalars_shared_pin_arrays_per_session
    [where d = Handle_sysex_pin_commands and ?s1.0 = 0 and data = "[2, 1, 3, 4]"
       and p = ?p and ?s2.0 = 1 and robot = 4 and r = 0] ok held
  have "heap (fst (run_decoder Handle_sysex_pin_commands 0 [2, 1, 3, 4] ?p)) 0 = heap ?p 0"
    by simp
  with ping other ok held show ?thesis
    by (intro conjI)
qed

text \<open>
  C8 as stated fails for the per-pin arrays: session 0 decodes
  \<open>PinCommand(GET_DIGITAL, value=1, pin=3, robot=4)\<close>; through session 0 slot 3 of the
  array of robot 4 is 1, through session 1 it is \<open>-1\<close>.
\<close>

theorem pin_value_not_seen_by_other_session:
  "heap (fst (handle_sysex_pin_commands 0 [2, 1, 3, 4] two_boards))
     (fst (pin_digital_value 0 4 (fst (handle_sysex_pin_commands 0 [2, 1, 3, 4] two_boards)))) ! 3 = 1 \<and>
   heap (snd (pin_digital_value 1 4 (fst (handle_sysex_pin_commands 0 [2, 1, 3, 4] two_boards))))
     (fst (pin_digital_value 1 4 (fst (handle_sysex_pin_commands 0 [2, 1, 3, 4] two_boards)))) ! 3 = - 1"
proof -
  let ?p1 = "two_boards\<lparr>instances := (instances two_boards)
             (0 := (instances two_boards 0)\<lparr>pin_digital_value_dict := [4 \<mapsto> 0]\<rparr>),
           heap := (heap two_boards)(0 := replicate 19 (- 1)),
           next_ref := Suc 0\<rparr>"
  let ?p' = "?p1\<lparr>heap := (heap ?p1)(0 := (replicate 19 (- 1))[3 := 1])\<rparr>"
  have acc: "pin_digital_value 0 4 two_boards = (0, ?p1)"
    by (simp add: pin_digital_value_def Let_def two_boards_instances_Suc)
  have run: "fst (handle_sysex_pin_commands 0 [2, 1, 3, 4] two_boards) = ?p'"
    by (simp add: handle_sysex_pin_commands_digital [OF acc] setitem_within)
  have own: "pin_digital_value 0 4 ?p' = (0, ?p')"
    by (simp add: pin_digital_value_def Let_def)
  have other: "fst (pin_digital_value 1 4 ?p') = Suc 0"
    "heap (snd (pin_digital_value 1 4 ?p')) (Suc 0) = replicate 19 (- 1)"
    by (simp_all add: pin_digital_value_def Let_def two_boards_instances_Suc)
  show ?thesis
    unfolding run own other fst_conv snd_conv
    by simp
qed

end
